theory Spec2Isabelle
  imports Main
begin

section \<open>The code execution engine of \<^verbatim>\<open>code-execution.js\<close>\<close>

text \<open>
  The engine writes a source file, optionally compiles it, runs it under a deadline and
  deletes what it created. Everything it does beyond computing a value goes through three
  library calls: \<^verbatim>\<open>fs.writeFileSync\<close>, \<^verbatim>\<open>fs.unlinkSync\<close> and
  \<^verbatim>\<open>child_process.exec\<close>. The model threads an explicit \<open>world\<close> (the files on
  disk, a monotonic clock, the number of random identifiers drawn, and the trace of
  library calls) and takes the behaviour of the operating system from an \<open>env\<close> record.

  Strings are \<open>char list\<close>; one \<open>char\<close> stands for one UTF-16 code unit below 256, so
  the model covers the texts whose code units are all below 256.
\<close>

subsection \<open>Character classes and string helpers\<close>

text \<open>The class \<^verbatim>\<open>\s\<close> of a JavaScript regular expression, which is also the set of
  characters \<^verbatim>\<open>String.prototype.trim\<close> strips, restricted to code units below 256.\<close>

definition is_space :: "char \<Rightarrow> bool" where
  "is_space c \<longleftrightarrow>
     c \<in> set [CHR 0x09, CHR 0x0A, CHR 0x0B, CHR 0x0C, CHR 0x0D, CHR 0x20, CHR 0xA0]"

text \<open>The class \<^verbatim>\<open>\w\<close>: ASCII letters, digits and the underscore.\<close>

definition is_word :: "char \<Rightarrow> bool" where
  "is_word c \<longleftrightarrow>
     (let n = (of_char c :: nat)
      in (48 \<le> n \<and> n \<le> 57) \<or> (65 \<le> n \<and> n \<le> 90) \<or> n = 95 \<or> (97 \<le> n \<and> n \<le> 122))"

text \<open>\<^verbatim>\<open>String.prototype.trim\<close>.\<close>

definition trim :: "string \<Rightarrow> string" where
  "trim s = rev (dropWhile is_space (rev (dropWhile is_space s)))"

text \<open>Matching a literal at the head of a text: the rest of the text after it.\<close>

fun strip_prefix :: "string \<Rightarrow> string \<Rightarrow> string option" where
  "strip_prefix [] s = Some s"
| "strip_prefix (p # ps) [] = None"
| "strip_prefix (p # ps) (c # cs) = (if p = c then strip_prefix ps cs else None)"

text \<open>\<^verbatim>\<open>path.join(executionDir, name)\<close> for a file name without separators or dots-only
  segments (a hexadecimal identifier or a \<^verbatim>\<open>\w+\<close> class name, plus an extension), where
  normalisation changes nothing.\<close>

definition path_join :: "string \<Rightarrow> string \<Rightarrow> string" where
  "path_join dir name = dir @ ''/'' @ name"

subsection \<open>The public class pattern\<close>

text \<open>
  \<^verbatim>\<open>code.match(/public\s+class\s+(\w+)/)\<close>. The quantifiers are greedy, and what follows
  each of them cannot start with a character of its class, so there is no backtracking to
  model: each run is taken whole. \<open>class_match_here\<close> is the pattern anchored at the head
  of the text and yields capture group 1; \<open>class_name_match\<close> tries every start position
  from the left, as \<^verbatim>\<open>match\<close> does.
\<close>

definition class_match_here :: "string \<Rightarrow> string option" where
  "class_match_here s =
     (case strip_prefix ''public'' s of
        None \<Rightarrow> None
      | Some r1 \<Rightarrow>
          if takeWhile is_space r1 = [] then None
          else (case strip_prefix ''class'' (dropWhile is_space r1) of
                  None \<Rightarrow> None
                | Some r2 \<Rightarrow>
                    if takeWhile is_space r2 = [] then None
                    else (let w = takeWhile is_word (dropWhile is_space r2)
                          in if w = [] then None else Some w)))"

fun class_name_match :: "string \<Rightarrow> string option" where
  "class_name_match [] = class_match_here []"
| "class_name_match (c # cs) =
     (case class_match_here (c # cs) of
        Some w \<Rightarrow> Some w
      | None \<Rightarrow> class_name_match cs)"

subsection \<open>The world and the operating system\<close>

datatype event =
    WriteFile string string
  | Exec string
  | Unlink string
  | ConsoleError string

record world =
  files :: "string \<rightharpoonup> string"
  clock :: nat
  rand_calls :: nat
  trace :: "event list"

text \<open>The error object \<^verbatim>\<open>exec\<close> hands to its callback: the fields the engine reads.\<close>

datatype exec_error = ExecError (killed: bool) (signal: "string option") (message: string)

text \<open>What the callback of \<^verbatim>\<open>exec\<close> receives, the files the process leaves on disk and
  the time in nanoseconds until the callback runs.\<close>

record proc_outcome =
  p_error :: "exec_error option"
  p_stdout :: string
  p_stderr :: string
  p_files :: "string \<rightharpoonup> string"
  p_nanos :: nat

text \<open>\<^verbatim>\<open>exec\<close> either throws while spawning or calls back later. The deadline makes
  \<^verbatim>\<open>exec\<close> send one \<^verbatim>\<open>SIGTERM\<close> to the shell it spawned, and the callback waits for the
  process to end and its pipes to close; a program that ignores the signal, or outlives
  its shell holding the pipes, keeps the callback from ever running. The field
  \<open>never_calls_back\<close> of the operating system says when that happens, and
  \<open>randomBytes_throws\<close> when drawing the identifier fails.\<close>

datatype exec_reply = SpawnThrows string | Callback proc_outcome

record env =
  executionDir :: string
  randomBytes_hex :: "nat \<Rightarrow> string"
  randomBytes_throws :: "nat \<Rightarrow> string option"
  write_throws :: "world \<Rightarrow> string \<Rightarrow> string option"
  write_nanos :: "world \<Rightarrow> string \<Rightarrow> nat"
  unlink_throws :: "string \<Rightarrow> bool"
  exec_reply :: "string \<Rightarrow> nat \<Rightarrow> world \<Rightarrow> exec_reply"
  never_calls_back :: "string \<Rightarrow> nat \<Rightarrow> world \<Rightarrow> bool"

definition MAX_EXECUTION_TIME :: nat where
  "MAX_EXECUTION_TIME = 5000"

text \<open>\<^verbatim>\<open>fs.writeFileSync(path, data)\<close>: throws an error with a message and leaves the disk
  as it was, or creates (or overwrites) the file.\<close>

definition writeFileSync :: "env \<Rightarrow> string \<Rightarrow> string \<Rightarrow> world \<Rightarrow> (string + unit) \<times> world" where
  "writeFileSync e p data w =
     (let w1 = w\<lparr>clock := clock w + write_nanos e w p\<rparr>
      in case write_throws e w p of
           Some msg \<Rightarrow> (Inl msg, w1)
         | None \<Rightarrow>
             (Inr (), w1\<lparr>files := (files w)(p \<mapsto> data),
                         trace := trace w @ [WriteFile p data]\<rparr>))"

text \<open>\<^verbatim>\<open>fs.unlinkSync(path)\<close>: throws when the file is not there or when the system refuses
  to delete it; the first component says whether it threw.\<close>

definition unlinkSync :: "env \<Rightarrow> string \<Rightarrow> world \<Rightarrow> bool \<times> world" where
  "unlinkSync e p w =
     (let w1 = w\<lparr>trace := trace w @ [Unlink p]\<rparr>
      in if files w p = None \<or> unlink_throws e p then (True, w1)
         else (False, w1\<lparr>files := (files w)(p := None)\<rparr>))"

text \<open>\<^verbatim>\<open>await new Promise(resolve => exec(cmd, { timeout }, callback))\<close>: the left
  injection is the message of an error thrown while spawning, which rejects the promise.\<close>

definition exec_await :: "env \<Rightarrow> string \<Rightarrow> world \<Rightarrow> (string + proc_outcome) \<times> world" where
  "exec_await e cmd w =
     (let w1 = w\<lparr>trace := trace w @ [Exec cmd]\<rparr>
      in case exec_reply e cmd MAX_EXECUTION_TIME w of
           SpawnThrows msg \<Rightarrow> (Inl msg, w1)
         | Callback out \<Rightarrow>
             (Inr out, w1\<lparr>files := p_files out, clock := clock w + p_nanos out\<rparr>))"

subsection \<open>cleanupFiles\<close>

fun cleanupFiles :: "env \<Rightarrow> string list \<Rightarrow> world \<Rightarrow> world" where
  "cleanupFiles e [] w = w"
| "cleanupFiles e (filePath # rest) w =
     (case unlinkSync e filePath w of
        (True, w1) \<Rightarrow> cleanupFiles e rest (w1\<lparr>trace := trace w1 @ [ConsoleError filePath]\<rparr>)
      | (False, w1) \<Rightarrow> cleanupFiles e rest w1)"

subsection \<open>executeCode\<close>

record exec_result =
  success :: bool
  output' :: "string option"
  error :: "string option"
  executionTime :: nat

text \<open>\<^verbatim>\<open>stderr || error.message\<close>: the empty string is falsy.\<close>

definition stderr_or_message :: "string \<Rightarrow> exec_error \<Rightarrow> string" where
  "stderr_or_message stderr err = (if stderr \<noteq> [] then stderr else message err)"

text \<open>The promise around a compile command: \<open>None\<close> is \<^verbatim>\<open>{ success: true }\<close>, \<open>Some r\<close>
  the failure result the callback resolves with.\<close>

definition compile_await :: "env \<Rightarrow> string \<Rightarrow> world \<Rightarrow> (string + exec_result option) \<times> world" where
  "compile_await e compileCommand w =
     (case exec_await e compileCommand w of
        (Inl msg, w1) \<Rightarrow> (Inl msg, w1)
      | (Inr out, w1) \<Rightarrow>
          (case p_error out of
             Some err \<Rightarrow>
               (Inr (Some \<lparr>success = False, output' = None,
                            error = Some (stderr_or_message (p_stderr out) err),
                            executionTime = 0\<rparr>), w1)
           | None \<Rightarrow> (Inr None, w1)))"

text \<open>How the \<^verbatim>\<open>switch\<close> of \<^verbatim>\<open>executeCode\<close> ends: with a \<^verbatim>\<open>return\<close>, with an exception
  (and the \<^verbatim>\<open>filesToCleanup\<close> of that moment), or by falling through to the run phase with
  \<^verbatim>\<open>commandToRun\<close> and \<^verbatim>\<open>filesToCleanup\<close>.\<close>

datatype prepared =
    Return exec_result
  | Throw string "string list"
  | Proceed string "string list"

definition script_case :: "env \<Rightarrow> string \<Rightarrow> string \<Rightarrow> string \<Rightarrow> string \<Rightarrow> world \<Rightarrow> prepared \<times> world" where
  "script_case e executionId ext interp code w =
     (let filePath = path_join (executionDir e) (executionId @ ext)
      in case writeFileSync e filePath code w of
           (Inl msg, w1) \<Rightarrow> (Throw msg [], w1)
         | (Inr _, w1) \<Rightarrow> (Proceed (interp @ '' '' @ filePath) [filePath], w1))"

definition java_case :: "env \<Rightarrow> string \<Rightarrow> world \<Rightarrow> prepared \<times> world" where
  "java_case e code w =
     (case class_name_match code of
        None \<Rightarrow>
          (Return \<lparr>success = False, output' = None,
                   error = Some ''Could not find a public class in your Java code'',
                   executionTime = 0\<rparr>, w)
      | Some className \<Rightarrow>
          (let filePath = path_join (executionDir e) (className @ ''.java'')
           in case writeFileSync e filePath code w of
                (Inl msg, w1) \<Rightarrow> (Throw msg [], w1)
              | (Inr _, w1) \<Rightarrow>
                  (let compileCommand = ''javac -d '' @ executionDir e @ '' '' @ filePath
                   in case compile_await e compileCommand w1 of
                        (Inl msg, w2) \<Rightarrow> (Throw msg [], w2)
                      | (Inr (Some compileResult), w2) \<Rightarrow>
                          (Return compileResult, cleanupFiles e [filePath] w2)
                      | (Inr None, w2) \<Rightarrow>
                          (Proceed (''java -cp '' @ executionDir e @ '' '' @ className)
                             [filePath, path_join (executionDir e) (className @ ''.class'')],
                           w2))))"

definition cpp_case :: "env \<Rightarrow> string \<Rightarrow> string \<Rightarrow> world \<Rightarrow> prepared \<times> world" where
  "cpp_case e executionId code w =
     (let filePath = path_join (executionDir e) (executionId @ ''.cpp'');
          outputPath = path_join (executionDir e) executionId
      in case writeFileSync e filePath code w of
           (Inl msg, w1) \<Rightarrow> (Throw msg [], w1)
         | (Inr _, w1) \<Rightarrow>
             (let cppCompileCommand = ''g++ '' @ filePath @ '' -o '' @ outputPath
              in case compile_await e cppCompileCommand w1 of
                   (Inl msg, w2) \<Rightarrow> (Throw msg [], w2)
                 | (Inr (Some cppCompileResult), w2) \<Rightarrow>
                     (Return cppCompileResult, cleanupFiles e [filePath] w2)
                 | (Inr None, w2) \<Rightarrow> (Proceed outputPath [filePath, outputPath], w2)))"

definition prepare :: "env \<Rightarrow> string \<Rightarrow> string \<Rightarrow> string \<Rightarrow> world \<Rightarrow> prepared \<times> world" where
  "prepare e executionId code language w =
     (if language = ''javascript'' then script_case e executionId ''.js'' ''node'' code w
      else if language = ''python'' then script_case e executionId ''.py'' ''python'' code w
      else if language = ''java'' then java_case e code w
      else if language = ''cpp'' then cpp_case e executionId code w
      else (Return \<lparr>success = False, output' = None,
                    error = Some (''Unsupported language: '' @ language),
                    executionTime = 0\<rparr>, w))"

text \<open>
  \<^verbatim>\<open>Math.round((endTime[0] * 1000) + (endTime[1] / 1000000))\<close> for
  \<^verbatim>\<open>endTime = process.hrtime(startTime)\<close>, that is seconds and nanoseconds of the elapsed
  time \<open>d\<close>. The first summand is a whole number and \<^verbatim>\<open>Math.round\<close> rounds halves up, so
  the value is the first summand plus the nanoseconds rounded to milliseconds; it is
  computed on naturals, which the doubles of the source represent exactly at these
  magnitudes.
\<close>

definition hr_millis :: "nat \<Rightarrow> nat" where
  "hr_millis d =
     (let sec = d div 1000000000; nsec = d mod 1000000000
      in sec * 1000 + (nsec + 500000) div 1000000)"

text \<open>The callback of the run phase.\<close>

definition run_result :: "nat \<Rightarrow> proc_outcome \<Rightarrow> exec_result" where
  "run_result elapsed out =
     (case p_error out of
        Some err \<Rightarrow>
          if killed err \<and> signal err = Some ''SIGTERM''
          then \<lparr>success = False, output' = None, error = Some ''Execution timed out'',
                executionTime = elapsed\<rparr>
          else \<lparr>success = False, output' = None,
                error = Some (stderr_or_message (p_stderr out) err),
                executionTime = elapsed\<rparr>
      | None \<Rightarrow>
          \<lparr>success = True, output' = Some (p_stdout out), error = None,
           executionTime = elapsed\<rparr>)"

text \<open>The \<^verbatim>\<open>catch\<close> block of \<^verbatim>\<open>executeCode\<close>.\<close>

definition catch_block :: "env \<Rightarrow> string \<Rightarrow> string list \<Rightarrow> world \<Rightarrow> exec_result \<times> world" where
  "catch_block e msg filesToCleanup w =
     (\<lparr>success = False, output' = None, error = Some msg, executionTime = 0\<rparr>,
      if length filesToCleanup > 0 then cleanupFiles e filesToCleanup w else w)"

text \<open>
  \<^verbatim>\<open>executeCode(code, language)\<close>, for an invocation that draws its identifier and whose
  callbacks all come: the result it resolves with and the world it leaves. The timer is
  opened before the \<^verbatim>\<open>try\<close>; \<^verbatim>\<open>Date.now()\<close> is read there too and never used.
\<close>

definition executeCode :: "env \<Rightarrow> string \<Rightarrow> string \<Rightarrow> world \<Rightarrow> exec_result \<times> world" where
  "executeCode e code language w0 =
     (let executionId = randomBytes_hex e (rand_calls w0);
          w = w0\<lparr>rand_calls := Suc (rand_calls w0)\<rparr>;
          startTime = clock w
      in case prepare e executionId code language w of
           (Return r, w1) \<Rightarrow> (r, w1)
         | (Throw msg filesToCleanup, w1) \<Rightarrow> catch_block e msg filesToCleanup w1
         | (Proceed commandToRun filesToCleanup, w1) \<Rightarrow>
             (case exec_await e commandToRun w1 of
                (Inl msg, w2) \<Rightarrow> catch_block e msg filesToCleanup w2
              | (Inr out, w2) \<Rightarrow>
                  (run_result (hr_millis (clock w2 - startTime)) out,
                   cleanupFiles e filesToCleanup w2)))"

subsection \<open>executeCode as its caller sees it\<close>








subsection \<open>Values of test cases\<close>

text \<open>
  A test case arrives as parsed JSON. \<open>JNum n\<close> stands for a number with the integral
  value \<open>n\<close> of magnitude below \<open>2 ^ 53\<close>, where \<^verbatim>\<open>String\<close> and \<^verbatim>\<open>JSON.stringify\<close> print
  the decimal numeral; fractional numbers are not represented. \<open>JObj\<close> lists the own
  properties of a plain object in enumeration order, with distinct keys. \<open>JUndefined\<close> is
  the value of a property that is not there.
\<close>

datatype jsval =
    JUndefined
  | JNull
  | JBool bool
  | JNum int
  | JStr string
  | JArr "jsval list"
  | JObj "(string \<times> jsval) list"

record test_case =
  test_input :: jsval
  test_output :: jsval

fun digits :: "nat \<Rightarrow> string" where
  "digits n =
     (if n < 10 then [''0123456789'' ! n]
      else digits (n div 10) @ [''0123456789'' ! (n mod 10)])"

definition number_to_string :: "int \<Rightarrow> string" where
  "number_to_string i = (if i < 0 then ''-'' @ digits (nat (- i)) else digits (nat i))"

fun join_with :: "string \<Rightarrow> string list \<Rightarrow> string" where
  "join_with sep [] = []"
| "join_with sep [x] = x"
| "join_with sep (x # y # ys) = x @ sep @ join_with sep (y # ys)"

text \<open>\<^verbatim>\<open>JSON.stringify\<close> of a string: quotes, with the quote, the backslash and the control
  characters escaped.\<close>

definition hex_digit :: "nat \<Rightarrow> char" where
  "hex_digit n = ''0123456789abcdef'' ! (n mod 16)"

definition json_escape :: "char \<Rightarrow> string" where
  "json_escape c =
     (if c = CHR 0x22 then [CHR 0x5C, CHR 0x22]
      else if c = CHR 0x5C then [CHR 0x5C, CHR 0x5C]
      else if c = CHR 0x08 then [CHR 0x5C, CHR ''b'']
      else if c = CHR 0x0C then [CHR 0x5C, CHR ''f'']
      else if c = CHR 0x0A then [CHR 0x5C, CHR ''n'']
      else if c = CHR 0x0D then [CHR 0x5C, CHR ''r'']
      else if c = CHR 0x09 then [CHR 0x5C, CHR ''t'']
      else if (of_char c :: nat) < 32
        then [CHR 0x5C, CHR ''u'', CHR ''0'', CHR ''0'',
              hex_digit ((of_char c :: nat) div 16), hex_digit ((of_char c :: nat) mod 16)]
      else [c])"

definition json_quote :: "string \<Rightarrow> string" where
  "json_quote s = [CHR 0x22] @ concat (map json_escape s) @ [CHR 0x22]"

text \<open>\<^verbatim>\<open>JSON.stringify(v)\<close>; \<open>None\<close> is the result \<^verbatim>\<open>undefined\<close>. In an array an undefined
  element prints as \<^verbatim>\<open>null\<close>; in an object an undefined property is left out.\<close>

fun json_stringify :: "jsval \<Rightarrow> string option"
  and json_elements :: "jsval list \<Rightarrow> string list"
  and json_members :: "(string \<times> jsval) list \<Rightarrow> string list" where
  "json_stringify JUndefined = None"
| "json_stringify JNull = Some ''null''"
| "json_stringify (JBool b) = Some (if b then ''true'' else ''false'')"
| "json_stringify (JNum n) = Some (number_to_string n)"
| "json_stringify (JStr s) = Some (json_quote s)"
| "json_stringify (JArr xs) = Some (''['' @ join_with '','' (json_elements xs) @ '']'')"
| "json_stringify (JObj kvs) = Some (''{'' @ join_with '','' (json_members kvs) @ ''}'')"
| "json_elements [] = []"
| "json_elements (x # xs) =
     (case json_stringify x of None \<Rightarrow> ''null'' | Some t \<Rightarrow> t) # json_elements xs"
| "json_members [] = []"
| "json_members ((k, v) # kvs) =
     (case json_stringify v of
        None \<Rightarrow> json_members kvs
      | Some t \<Rightarrow> (json_quote k @ '':'' @ t) # json_members kvs)"

text \<open>The text a template literal inserts for \<^verbatim>\<open>${JSON.stringify(v)}\<close>.\<close>

definition stringify_text :: "jsval \<Rightarrow> string" where
  "stringify_text v = (case json_stringify v of None \<Rightarrow> ''undefined'' | Some t \<Rightarrow> t)"

text \<open>
  \<^verbatim>\<open>String(v)\<close>; the left injection is the message of the \<^verbatim>\<open>TypeError\<close> it throws. An
  array is joined with commas, \<^verbatim>\<open>null\<close> and \<^verbatim>\<open>undefined\<close> elements giving the empty
  text. A plain object gives \<^verbatim>\<open>[object Object]\<close> through the inherited \<^verbatim>\<open>toString\<close>;
  an own property \<^verbatim>\<open>toString\<close> shadows it, is not callable (it is parsed JSON), and
  \<^verbatim>\<open>valueOf\<close> then yields no primitive either, so the conversion throws.
\<close>

fun js_String :: "jsval \<Rightarrow> string + string"
  and js_join :: "jsval list \<Rightarrow> string + string" where
  "js_String JUndefined = Inr ''undefined''"
| "js_String JNull = Inr ''null''"
| "js_String (JBool b) = Inr (if b then ''true'' else ''false'')"
| "js_String (JNum n) = Inr (number_to_string n)"
| "js_String (JStr s) = Inr s"
| "js_String (JArr xs) = js_join xs"
| "js_String (JObj kvs) =
     (if ''toString'' \<in> set (map fst kvs)
      then Inl ''Cannot convert object to primitive value''
      else Inr ''[object Object]'')"
| "js_join [] = Inr []"
| "js_join (x # xs) =
     (case (if x = JUndefined \<or> x = JNull then Inr [] else js_String x) of
        Inl msg \<Rightarrow> Inl msg
      | Inr s \<Rightarrow>
          if xs = [] then Inr s
          else (case js_join xs of Inl msg \<Rightarrow> Inl msg | Inr r \<Rightarrow> Inr (s @ '','' @ r)))"

subsection \<open>The entry point rewrite\<close>

text \<open>
  The patterns \<^verbatim>\<open>/public static void main\([^)]*\)\s*{[^}]*}/s\<close> and
  \<^verbatim>\<open>/int main\([^)]*\)\s*{[^}]*}/s\<close> differ in their literal head only. After the head,
  \<^verbatim>\<open>[^)]*\<close> runs to the first closing parenthesis, \<^verbatim>\<open>\s*\<close> over all the white space,
  and \<^verbatim>\<open>[^}]*\<close> to the first closing brace; as each run stops at the one character
  that may follow it, taking a shorter run never helps. \<open>entry_match_here\<close> is the pattern
  anchored at the head of the text and yields the text after the match.
\<close>

definition entry_match_here :: "string \<Rightarrow> string \<Rightarrow> string option" where
  "entry_match_here head s =
     (case strip_prefix head s of
        None \<Rightarrow> None
      | Some r1 \<Rightarrow>
          (case dropWhile (\<lambda>c. c \<noteq> CHR '')'') r1 of
             [] \<Rightarrow> None
           | _ # r2 \<Rightarrow>
               (case dropWhile is_space r2 of
                  [] \<Rightarrow> None
                | c # r3 \<Rightarrow>
                    if c \<noteq> CHR ''{'' then None
                    else (case dropWhile (\<lambda>c. c \<noteq> CHR ''}'') r3 of
                            [] \<Rightarrow> None
                          | _ # r4 \<Rightarrow> Some r4))))"

text \<open>The leftmost match: the text before it, the matched text and the text after it.\<close>

fun find_entry :: "string \<Rightarrow> string \<Rightarrow> string \<Rightarrow> (string \<times> string \<times> string) option" where
  "find_entry head before [] =
     (case entry_match_here head [] of
        Some rest \<Rightarrow> Some (before, [], rest)
      | None \<Rightarrow> None)"
| "find_entry head before (c # cs) =
     (case entry_match_here head (c # cs) of
        Some rest \<Rightarrow> Some (before, take (length (c # cs) - length rest) (c # cs), rest)
      | None \<Rightarrow> find_entry head (before @ [c]) cs)"

text \<open>
  The replacement text of \<^verbatim>\<open>String.prototype.replace\<close> is not inserted verbatim:
  \<^verbatim>\<open>$$\<close> gives a dollar sign, \<^verbatim>\<open>$&\<close> the matched text, \<^verbatim>\<open>$`\<close> the text before the match and
  \<^verbatim>\<open>$'\<close> the text after it. The patterns have no capture groups, so a dollar sign before
  anything else stays.
\<close>

fun get_substitution :: "string \<Rightarrow> string \<Rightarrow> string \<Rightarrow> string \<Rightarrow> string" where
  "get_substitution matched before after [] = []"
| "get_substitution matched before after [c] = [c]"
| "get_substitution matched before after (c # d # r) =
     (if c = CHR ''$'' \<and> d = CHR ''$'' then CHR ''$'' # get_substitution matched before after r
      else if c = CHR ''$'' \<and> d = CHR ''&'' then matched @ get_substitution matched before after r
      else if c = CHR ''$'' \<and> d = CHR 0x60 then before @ get_substitution matched before after r
      else if c = CHR ''$'' \<and> d = CHR 0x27 then after @ get_substitution matched before after r
      else c # get_substitution matched before after (d # r))"

text \<open>\<^verbatim>\<open>code.replace(pattern, replacement)\<close> for a pattern without the global flag.\<close>

definition replace_entry :: "string \<Rightarrow> string \<Rightarrow> string \<Rightarrow> string" where
  "replace_entry head replacement code =
     (case find_entry head [] code of
        None \<Rightarrow> code
      | Some (before, matched, after) \<Rightarrow>
          before @ get_substitution matched before after replacement @ after)"

subsection \<open>runTestCases\<close>

text \<open>The \<^verbatim>\<open>switch\<close> of \<^verbatim>\<open>runTestCases\<close>; \<open>None\<close> is its \<^verbatim>\<open>default\<close> branch.\<close>

definition modifiedCode :: "string \<Rightarrow> string \<Rightarrow> test_case \<Rightarrow> string option" where
  "modifiedCode code language t =
     (if language = ''javascript''
        then Some (code @ [CHR 0x0A, CHR 0x0A] @ ''console.log(solution(''
                   @ stringify_text (test_input t) @ ''));'')
      else if language = ''python''
        then Some (code @ [CHR 0x0A, CHR 0x0A] @ ''print(solution(''
                   @ stringify_text (test_input t) @ ''))'')
      else if language = ''java''
        then Some (replace_entry ''public static void main(''
                     (''public static void main(String[] args) { System.out.println(solution(''
                      @ stringify_text (test_input t) @ '')); }'') code)
      else if language = ''cpp''
        then Some (replace_entry ''int main(''
                     (''int main() { cout << solution('' @ stringify_text (test_input t)
                      @ '') << endl; return 0; }'') code)
      else None)"

text \<open>An entry of the returned array. \<^verbatim>\<open>executionTime\<close> is absent from the entries the
  \<^verbatim>\<open>default\<close> branch and the \<^verbatim>\<open>catch\<close> block push.\<close>

record test_result =
  tr_success :: bool
  tr_output :: "string option"
  tr_error :: "string option"
  tr_executionTime :: "nat option"
  testPassed :: "bool option"
  expected :: "jsval option"
  test :: test_case

text \<open>The \<^verbatim>\<open>catch\<close> block of the loop body.\<close>

definition case_caught :: "string \<Rightarrow> test_case \<Rightarrow> test_result" where
  "case_caught msg t =
     \<lparr>tr_success = False, tr_output = None, tr_error = Some msg, tr_executionTime = None,
      testPassed = None, expected = None, test = t\<rparr>"

text \<open>\<^verbatim>\<open>{ ...result, test }\<close> for a result that \<^verbatim>\<open>testPassed\<close> and \<^verbatim>\<open>expected\<close> may
  have been added to.\<close>

definition spread_result :: "exec_result \<Rightarrow> bool option \<Rightarrow> jsval option \<Rightarrow> test_case \<Rightarrow> test_result" where
  "spread_result r passed exp t =
     \<lparr>tr_success = success r, tr_output = output' r, tr_error = error r,
      tr_executionTime = Some (executionTime r),
      testPassed = passed, expected = exp, test = t\<rparr>"

text \<open>What the loop body does with the result of \<^verbatim>\<open>executeCode\<close>. Reading
  \<^verbatim>\<open>result.output.trim()\<close> on a missing output and \<^verbatim>\<open>String(test.output)\<close> may throw.\<close>

definition compare_output :: "exec_result \<Rightarrow> test_case \<Rightarrow> test_result" where
  "compare_output result t =
     (if success result then
        (case output' result of
           None \<Rightarrow> case_caught ''Cannot read properties of undefined (reading 'trim')'' t
         | Some out \<Rightarrow>
             (let normalizedOutput = trim out
              in case js_String (test_output t) of
                   Inl msg \<Rightarrow> case_caught msg t
                 | Inr str \<Rightarrow>
                     (let normalizedExpected = trim str
                      in spread_result result (Some (normalizedOutput = normalizedExpected))
                           (Some (test_output t)) t)))
      else spread_result result None None t)"

text \<open>One iteration of the loop, for an execution that resolves: the entry pushed and
  the world afterwards.\<close>

definition test_body :: "env \<Rightarrow> string \<Rightarrow> string \<Rightarrow> test_case \<Rightarrow> world \<Rightarrow> test_result \<times> world" where
  "test_body e code language t w =
     (case modifiedCode code language t of
        None \<Rightarrow>
          (\<lparr>tr_success = False, tr_output = None,
            tr_error = Some (''Unsupported language for test cases: '' @ language),
            tr_executionTime = None, testPassed = None, expected = None, test = t\<rparr>, w)
      | Some modified \<Rightarrow>
          (case executeCode e modified language w of
             (result, w1) \<Rightarrow> (compare_output result t, w1)))"



section \<open>Vocabulary of the properties\<close>

subsection \<open>Artifacts, commands and phases of one invocation\<close>

text \<open>The world in which the \<^verbatim>\<open>switch\<close> starts: the identifier has been drawn.\<close>

definition started :: "world \<Rightarrow> world" where
  "started w = w\<lparr>rand_calls := Suc (rand_calls w)\<rparr>"

text \<open>The path of the source file an invocation writes, as lines 40, 47, 65 and 96 build
  it; none for an unsupported language or for Java text without a public class.\<close>

definition source_file :: "env \<Rightarrow> string \<Rightarrow> string \<Rightarrow> world \<Rightarrow> string option" where
  "source_file e code language w =
     (let executionId = randomBytes_hex e (rand_calls w)
      in if language = ''javascript'' then Some (path_join (executionDir e) (executionId @ ''.js''))
         else if language = ''python'' then Some (path_join (executionDir e) (executionId @ ''.py''))
         else if language = ''java''
           then map_option (\<lambda>className. path_join (executionDir e) (className @ ''.java''))
                  (class_name_match code)
         else if language = ''cpp'' then Some (path_join (executionDir e) (executionId @ ''.cpp''))
         else None)"

text \<open>The path of the compiled output, as lines 92 and 97 build it.\<close>

definition compiled_file :: "env \<Rightarrow> string \<Rightarrow> string \<Rightarrow> world \<Rightarrow> string option" where
  "compiled_file e code language w =
     (if language = ''java''
        then map_option (\<lambda>className. path_join (executionDir e) (className @ ''.class''))
               (class_name_match code)
      else if language = ''cpp''
        then Some (path_join (executionDir e) (randomBytes_hex e (rand_calls w)))
      else None)"

text \<open>The artifact set of an invocation: the source file and, for a compiled language,
  the compiled output.\<close>

definition artifact_set :: "env \<Rightarrow> string \<Rightarrow> string \<Rightarrow> world \<Rightarrow> string list" where
  "artifact_set e code language w =
     (case source_file e code language w of
        None \<Rightarrow> []
      | Some src \<Rightarrow>
          src # (case compiled_file e code language w of None \<Rightarrow> [] | Some bin \<Rightarrow> [bin]))"

text \<open>The compile command (lines 69 and 101) and the run command (lines 42, 49, 91 and
  123) of an invocation.\<close>

definition compile_command :: "env \<Rightarrow> string \<Rightarrow> string \<Rightarrow> world \<Rightarrow> string option" where
  "compile_command e code language w =
     (case (source_file e code language w, compiled_file e code language w) of
        (Some src, Some bin) \<Rightarrow>
          if language = ''java'' then Some (''javac -d '' @ executionDir e @ '' '' @ src)
          else Some (''g++ '' @ src @ '' -o '' @ bin)
      | _ \<Rightarrow> None)"

definition run_command :: "env \<Rightarrow> string \<Rightarrow> string \<Rightarrow> world \<Rightarrow> string option" where
  "run_command e code language w =
     (case source_file e code language w of
        None \<Rightarrow> None
      | Some src \<Rightarrow>
          if language = ''javascript'' then Some (''node '' @ src)
          else if language = ''python'' then Some (''python '' @ src)
          else if language = ''java''
            then map_option (\<lambda>className. ''java -cp '' @ executionDir e @ '' '' @ className)
                   (class_name_match code)
          else compiled_file e code language w)"

text \<open>The library calls one invocation makes, in order.\<close>

definition events_of :: "env \<Rightarrow> string \<Rightarrow> string \<Rightarrow> world \<Rightarrow> event list" where
  "events_of e code language w =
     drop (length (trace w)) (trace (snd (executeCode e code language w)))"

text \<open>The world after the source file has been written, and the world after the compile
  command has called back.\<close>

definition written :: "env \<Rightarrow> string \<Rightarrow> string \<Rightarrow> world \<Rightarrow> world" where
  "written e code language w =
     (case source_file e code language w of
        None \<Rightarrow> started w
      | Some src \<Rightarrow> snd (writeFileSync e src code (started w)))"

definition compiled :: "env \<Rightarrow> string \<Rightarrow> string \<Rightarrow> world \<Rightarrow> world" where
  "compiled e code language w =
     (case compile_command e code language w of
        None \<Rightarrow> written e code language w
      | Some cmd \<Rightarrow> snd (exec_await e cmd (written e code language w)))"

text \<open>The process killed by the deadline, as the run phase recognises it.\<close>

definition timed_out :: "exec_error \<Rightarrow> bool" where
  "timed_out err \<longleftrightarrow> killed err \<and> signal err = Some ''SIGTERM''"

text \<open>The result either carries an output or an error, as its flag says.\<close>

definition well_formed :: "exec_result \<Rightarrow> bool" where
  "well_formed r \<longleftrightarrow>
     (success r = (output' r \<noteq> None)) \<and> ((\<not> success r) = (error r \<noteq> None))"

subsection \<open>The patterns, declaratively\<close>


text \<open>A text contains an entry block for a head when it has the shape the pattern
  \<^verbatim>\<open>head[^)]*\)\s*{[^}]*}\<close> describes.\<close>

definition contains_entry_block :: "string \<Rightarrow> string \<Rightarrow> bool" where
  "contains_entry_block head code \<longleftrightarrow>
     (\<exists>before args ws body after.
        code = before @ head @ args @ '')'' @ ws @ ''{'' @ body @ ''}'' @ after
        \<and> CHR '')'' \<notin> set args \<and> list_all is_space ws \<and> CHR ''}'' \<notin> set body)"



text \<open>An entry block \<open>matched\<close> stands between \<open>before\<close> and \<open>after\<close>.\<close>

definition entry_block_at :: "string \<Rightarrow> string \<Rightarrow> string \<Rightarrow> string \<Rightarrow> string \<Rightarrow> bool" where
  "entry_block_at head before matched after code \<longleftrightarrow>
     code = before @ matched @ after
     \<and> (\<exists>args ws body.
           matched = head @ args @ '')'' @ ws @ ''{'' @ body @ ''}''
           \<and> CHR '')'' \<notin> set args \<and> list_all is_space ws \<and> CHR ''}'' \<notin> set body)"

text \<open>The entry block \<^verbatim>\<open>replace\<close> finds is the first one of the text.\<close>

definition first_entry_block :: "string \<Rightarrow> string \<Rightarrow> string \<Rightarrow> string \<Rightarrow> string \<Rightarrow> bool" where
  "first_entry_block head before matched after code \<longleftrightarrow>
     entry_block_at head before matched after code
     \<and> (\<forall>b m a. entry_block_at head b m a code \<longrightarrow> length before \<le> length b)"

text \<open>The head of the pattern the rewrite of a compiled language looks for.\<close>

definition entry_head :: "string \<Rightarrow> string" where
  "entry_head language =
     (if language = ''java'' then ''public static void main('' else ''int main('')"

text \<open>The replacement text of the rewrite, as lines 205 and 212 build it.\<close>

definition entry_replacement :: "string \<Rightarrow> test_case \<Rightarrow> string" where
  "entry_replacement language t =
     (if language = ''java''
      then ''public static void main(String[] args) { System.out.println(solution(''
             @ stringify_text (test_input t) @ '')); }''
      else ''int main() { cout << solution('' @ stringify_text (test_input t)
             @ '') << endl; return 0; }'')"

subsection \<open>Sample worlds and operating systems\<close>

definition world0 :: world where
  "world0 = \<lparr>files = Map.empty, clock = 0, rand_calls = 0, trace = []\<rparr>"

definition sample_id :: "nat \<Rightarrow> string" where
  "sample_id n =
     ''00112233445566778899aabbccddee'' @ [hex_digit (n div 16 mod 16), hex_digit (n mod 16)]"

definition is_compile :: "string \<Rightarrow> bool" where
  "is_compile cmd \<longleftrightarrow> take 4 cmd = ''g++ '' \<or> take 6 cmd = ''javac ''"

text \<open>A process that exits cleanly after printing \<open>out\<close>, leaving \<open>made\<close> on disk.\<close>

definition clean_exit :: "string \<Rightarrow> (string \<times> string) list \<Rightarrow> nat \<Rightarrow> world \<Rightarrow> proc_outcome" where
  "clean_exit out made nanos w =
     \<lparr>p_error = None, p_stdout = out, p_stderr = [],
      p_files = (\<lambda>p. case map_of made p of Some d \<Rightarrow> Some d | None \<Rightarrow> files w p),
      p_nanos = nanos\<rparr>"

text \<open>A process that ends with an error object and \<open>err\<close> on its standard error.\<close>

definition failed_exit :: "exec_error \<Rightarrow> string \<Rightarrow> nat \<Rightarrow> world \<Rightarrow> proc_outcome" where
  "failed_exit ex err nanos w =
     \<lparr>p_error = Some ex, p_stdout = [], p_stderr = err, p_files = files w, p_nanos = nanos\<rparr>"

text \<open>An operating system that draws identifiers and delivers every callback, never
  refuses a write, refuses deletions when
  \<open>undeletable\<close>, and answers compile commands with \<open>compile\<close> and the others with \<open>run\<close>.\<close>

definition sample_env :: "bool \<Rightarrow> (world \<Rightarrow> proc_outcome) \<Rightarrow> (world \<Rightarrow> proc_outcome) \<Rightarrow> env" where
  "sample_env undeletable compile run =
     \<lparr>executionDir = ''/srv/code-executions'',
      randomBytes_hex = sample_id,
      randomBytes_throws = (\<lambda>n. None),
      write_throws = (\<lambda>w p. None),
      write_nanos = (\<lambda>w p. 0),
      unlink_throws = (\<lambda>p. undeletable),
      exec_reply = (\<lambda>cmd timeout w. Callback (if is_compile cmd then compile w else run w)),
      never_calls_back = (\<lambda>cmd timeout w. False)\<rparr>"

definition prints_42 :: "world \<Rightarrow> proc_outcome" where
  "prints_42 = clean_exit (''42'' @ [CHR 0x0A]) [] 10000000"

definition gxx_ok :: "world \<Rightarrow> proc_outcome" where
  "gxx_ok = clean_exit [] [(''/srv/code-executions/00112233445566778899aabbccddee00'', ''ELF'')]
              2000000000"

definition javac_ok :: "world \<Rightarrow> proc_outcome" where
  "javac_ok = clean_exit [] [(''/srv/code-executions/Main.class'', ''CAFEBABE'')] 2000000000"

subsection \<open>Auxiliary notions of the proofs\<close>

text \<open>The calls \<open>cleanupFiles\<close> adds to the trace, from the files on disk.\<close>

fun cleanup_events :: "env \<Rightarrow> string list \<Rightarrow> (string \<rightharpoonup> string) \<Rightarrow> event list" where
  "cleanup_events e [] fs = []"
| "cleanup_events e (p # ps) fs =
     (if fs p = None \<or> unlink_throws e p
      then Unlink p # ConsoleError p # cleanup_events e ps fs
      else Unlink p # cleanup_events e ps (fs(p := None)))"

text \<open>The failure results with zero elapsed time.\<close>

definition failure :: "string \<Rightarrow> exec_result" where
  "failure msg = \<lparr>success = False, output' = None, error = Some msg, executionTime = 0\<rparr>"

text \<open>The compile phase is passed when there is none or when the compile command
  called back without an error.\<close>

definition compile_passed :: "env \<Rightarrow> string \<Rightarrow> string \<Rightarrow> world \<Rightarrow> bool" where
  "compile_passed e code language w =
     (case compile_command e code language w of
        None \<Rightarrow> True
      | Some ccmd \<Rightarrow>
          (case exec_reply e ccmd MAX_EXECUTION_TIME (written e code language w) of
             SpawnThrows msg \<Rightarrow> False
           | Callback out \<Rightarrow> p_error out = None))"



text \<open>The world after the run command.\<close>

definition after_run :: "env \<Rightarrow> string \<Rightarrow> string \<Rightarrow> world \<Rightarrow> world" where
  "after_run e code language w =
     (case run_command e code language w of
        None \<Rightarrow> compiled e code language w
      | Some cmd \<Rightarrow> snd (exec_await e cmd (compiled e code language w)))"

subsection \<open>Sample failures\<close>

definition killed_by_deadline :: exec_error where
  "killed_by_deadline = ExecError True (Some ''SIGTERM'') ''Command failed: (killed)''"

definition exit_code_1 :: exec_error where
  "exit_code_1 = ExecError False None ''Command failed: (exit code 1)''"

definition gxx_killed :: "world \<Rightarrow> proc_outcome" where
  "gxx_killed = failed_exit killed_by_deadline [] 5000000000"

definition gxx_syntax_error :: "world \<Rightarrow> proc_outcome" where
  "gxx_syntax_error =
     failed_exit exit_code_1 ''prog.cpp:1:1: error: expected unqualified-id'' 300000000"

definition run_killed :: "world \<Rightarrow> proc_outcome" where
  "run_killed = failed_exit killed_by_deadline [] 5000000000"

text \<open>An operating system under which no run command ever calls back, and one that
  refuses every write.\<close>

definition hanging_run_env :: env where
  "hanging_run_env =
     (sample_env False gxx_ok prints_42)\<lparr>never_calls_back := (\<lambda>cmd timeout w. \<not> is_compile cmd)\<rparr>"

definition read_only_env :: env where
  "read_only_env =
     (sample_env False gxx_ok prints_42)\<lparr>write_throws := (\<lambda>w p. Some ''EROFS: read-only file system'')\<rparr>"


subsection \<open>Sample programs and test cases\<close>

definition nested_main_java :: string where
  "nested_main_java =
     ''public class Main { public static void main(String[] args) { if (args.length == 0) { System.out.println(1); } } }''"

definition case_42 :: test_case where
  "case_42 = \<lparr>test_input = JNum 5, test_output = JNum 42\<rparr>"

definition case_toString :: test_case where
  "case_toString = \<lparr>test_input = JNum 5, test_output = JObj [(''toString'', JNum 1)]\<rparr>"

definition solution_js :: string where
  "solution_js = ''function solution(x) { return 42; }''"

definition solution_cpp :: string where
  "solution_cpp = ''int solution(int x) { return 42; }''"


definition plain_main_cpp :: string where
  "plain_main_cpp = ''int solution(int x) { return x; } int main() { return 0; }''"

section \<open>Properties of the engine\<close>

lemmas engine_defs =
  executeCode_def prepare_def script_case_def java_case_def cpp_case_def
  compile_await_def exec_await_def writeFileSync_def unlinkSync_def catch_block_def
  run_result_def path_join_def MAX_EXECUTION_TIME_def stderr_or_message_def

lemmas sample_defs =
  sample_env_def world0_def sample_id_def is_compile_def clean_exit_def failed_exit_def
  prints_42_def gxx_ok_def javac_ok_def hex_digit_def killed_by_deadline_def exit_code_1_def
  gxx_killed_def gxx_syntax_error_def run_killed_def hanging_run_env_def read_only_env_def

lemmas phase_defs =
  source_file_def compiled_file_def compile_command_def run_command_def artifact_set_def
  written_def compiled_def started_def

lemmas eval_defs =
  engine_defs sample_defs Let_def cleanupFiles.simps hr_millis_def events_of_def phase_defs
  timed_out_def compile_passed_def

subsection \<open>The helpers on sample values\<close>

lemma hr_millis_rounds_half_up:
  "hr_millis 1499999 = 1 \<and> hr_millis 1500000 = 2 \<and> hr_millis 2010000000 = 2010"
  by (simp add: hr_millis_def)

lemma trim_strips_both_ends:
  "trim ([CHR 0x09, CHR 0x20] @ ''4 2'' @ [CHR 0x0D, CHR 0x0A]) = ''4 2''"
  by (simp add: trim_def is_space_def)

lemma js_String_samples:
  "js_String (JArr [JNum 1, JNull, JStr ''a'', JArr [JBool True, JNum (- 20)]]) = Inr ''1,,a,true,-20''"
  by (simp add: number_to_string_def)

lemma stringify_text_samples:
  "stringify_text (JObj [(''a'', JArr [JNum 1, JStr ''x'']), (''b'', JUndefined), (''c'', JBool True)])
     = ''{'' @ [CHR 0x22] @ ''a'' @ [CHR 0x22] @ '':[1,'' @ [CHR 0x22] @ ''x'' @ [CHR 0x22] @ ''],''
         @ [CHR 0x22] @ ''c'' @ [CHR 0x22] @ '':true}''"
  by (simp add: stringify_text_def json_quote_def json_escape_def number_to_string_def)

subsection \<open>Unsupported languages\<close>

text \<open>
  C7. For every language tag outside javascript, python, java and cpp, executeCode
  returns a failure whose error is the unsupported-language message naming the tag and
  whose executionTime is zero; it touches no file and makes no library call at all,
  so it creates no artifact and spawns no process.
\<close>

theorem unsupported_language_rejected:
  assumes "language \<notin> {''javascript'', ''python'', ''java'', ''cpp''}"
  shows "fst (executeCode e code language w) =
           \<lparr>success = False, output' = None,
            error = Some (''Unsupported language: '' @ language), executionTime = 0\<rparr>
         \<and> files (snd (executeCode e code language w)) = files w
         \<and> events_of e code language w = []"
  using assms by (simp add: executeCode_def prepare_def events_of_def)

theorem unsupported_language_rejected_witness:
  "''ruby'' \<notin> {''javascript'', ''python'', ''java'', ''cpp''}
   \<and> fst (executeCode (sample_env False gxx_ok prints_42) ''puts 42'' ''ruby'' world0) =
         \<lparr>success = False, output' = None,
          error = Some ''Unsupported language: ruby'', executionTime = 0\<rparr>
   \<and> files (snd (executeCode (sample_env False gxx_ok prints_42) ''puts 42'' ''ruby'' world0)) =
         files world0
   \<and> events_of (sample_env False gxx_ok prints_42) ''puts 42'' ''ruby'' world0 = []"
  using unsupported_language_rejected
          [of "''ruby''" "sample_env False gxx_ok prints_42" "''puts 42''" world0]
  by simp

subsection \<open>The shape of the result\<close>

lemma well_formed_run_result: "well_formed (run_result t out)"
  by (simp add: well_formed_def run_result_def split: option.splits)

lemma well_formed_catch_block: "well_formed (fst (catch_block e msg fl w))"
  by (simp add: well_formed_def catch_block_def)

lemma well_formed_compile_await:
  "compile_await e cmd w = (Inr (Some r), w1) \<Longrightarrow> well_formed r"
  by (auto simp: compile_await_def well_formed_def split: prod.splits sum.splits option.splits)

lemma well_formed_prepare:
  "prepare e i code language w = (Return r, w1) \<Longrightarrow> well_formed r"
  by (auto simp: prepare_def script_case_def java_case_def cpp_case_def Let_def well_formed_def
      dest!: well_formed_compile_await
      split: if_splits prod.splits sum.splits option.splits)

lemma well_formed_executeCode: "well_formed (fst (executeCode e code language w))"
  by (auto simp: executeCode_def Let_def well_formed_run_result well_formed_catch_block
      dest: well_formed_prepare split: prod.splits prepared.splits sum.splits)

subsection \<open>Cleaning up and the branches of one invocation\<close>

lemma trace_cleanupFiles: "trace (cleanupFiles e ps w) = trace w @ cleanup_events e ps (files w)"
  by (induction ps arbitrary: w) (auto simp: unlinkSync_def Let_def)

lemma files_cleanupFiles:
  "files (cleanupFiles e ps w) p = (if p \<in> set ps \<and> \<not> unlink_throws e p then None else files w p)"
  by (induction ps arbitrary: w) (auto simp: unlinkSync_def Let_def)

lemma clock_cleanupFiles: "clock (cleanupFiles e ps w) = clock w"
  by (induction ps arbitrary: w) (auto simp: unlinkSync_def Let_def)

lemma rand_cleanupFiles: "rand_calls (cleanupFiles e ps w) = rand_calls w"
  by (induction ps arbitrary: w) (auto simp: unlinkSync_def Let_def)

lemma Unlink_cleanup_events: "Unlink p \<in> set (cleanup_events e ps fs) \<longleftrightarrow> p \<in> set ps"
  by (induction ps arbitrary: fs) auto

lemma Exec_cleanup_events: "Exec c \<notin> set (cleanup_events e ps fs)"
  by (induction ps arbitrary: fs) auto

lemma WriteFile_cleanup_events: "WriteFile p d \<notin> set (cleanup_events e ps fs)"
  by (induction ps arbitrary: fs) auto

lemmas cleanup_simps = trace_cleanupFiles files_cleanupFiles clock_cleanupFiles rand_cleanupFiles
  Unlink_cleanup_events Exec_cleanup_events WriteFile_cleanup_events

declare cleanupFiles.simps [simp del]

lemma executeCode_no_class:
  assumes "class_name_match code = None"
  shows "executeCode e code ''java'' w =
     (failure ''Could not find a public class in your Java code'', started w)"
  using assms by (simp add: executeCode_def prepare_def java_case_def started_def failure_def)

lemma executeCode_write_threw:
  assumes "source_file e code language w = Some src"
    and "write_throws e (started w) src = Some msg"
  shows "executeCode e code language w = (failure msg, written e code language w)"
  using assms
  by (auto simp: executeCode_def prepare_def script_case_def java_case_def cpp_case_def
      writeFileSync_def catch_block_def Let_def phase_defs failure_def split: if_splits)

lemma executeCode_compile_threw:
  assumes "source_file e code language w = Some src"
    and "write_throws e (started w) src = None"
    and "compile_command e code language w = Some ccmd"
    and "exec_reply e ccmd MAX_EXECUTION_TIME (written e code language w) = SpawnThrows msg"
  shows "executeCode e code language w = (failure msg, compiled e code language w)"
  using assms
  by (auto simp: executeCode_def prepare_def script_case_def java_case_def cpp_case_def
      writeFileSync_def catch_block_def Let_def phase_defs failure_def compile_await_def exec_await_def
      split: if_splits option.splits)

lemma executeCode_compile_failed:
  assumes "source_file e code language w = Some src"
    and "write_throws e (started w) src = None"
    and "compile_command e code language w = Some ccmd"
    and "exec_reply e ccmd MAX_EXECUTION_TIME (written e code language w) = Callback out"
    and "p_error out = Some err"
  shows "executeCode e code language w =
     (failure (stderr_or_message (p_stderr out) err), cleanupFiles e [src] (compiled e code language w))"
  using assms
  by (auto simp: executeCode_def prepare_def script_case_def java_case_def cpp_case_def
      writeFileSync_def catch_block_def Let_def phase_defs failure_def compile_await_def exec_await_def
      split: if_splits option.splits)

lemma source_file_language:
  assumes "source_file e code language w = Some src"
  shows "language \<in> {''javascript'', ''python'', ''java'', ''cpp''}"
  using assms by (auto simp: source_file_def Let_def split: if_splits)

lemma prepare_proceeds:
  assumes "source_file e code language w = Some src"
    and "write_throws e (started w) src = None"
    and "compile_passed e code language w"
    and "run_command e code language w = Some rcmd"
  shows "prepare e (randomBytes_hex e (rand_calls w)) code language (started w) =
     (Proceed rcmd (artifact_set e code language w), compiled e code language w)"
proof -
  consider "language = ''javascript''" | "language = ''python''" | "language = ''java''"
    | "language = ''cpp''"
    using source_file_language [OF assms(1)] by auto
  then show ?thesis
  proof cases
    case 1
    with assms show ?thesis
      by (simp add: prepare_def script_case_def writeFileSync_def Let_def phase_defs)
  next
    case 2
    with assms show ?thesis
      by (simp add: prepare_def script_case_def writeFileSync_def Let_def phase_defs)
  next
    case 3
    with assms show ?thesis
      by (auto simp: prepare_def java_case_def writeFileSync_def Let_def phase_defs
          compile_await_def exec_await_def compile_passed_def
          split: option.splits exec_reply.splits)
  next
    case 4
    with assms show ?thesis
      by (auto simp: prepare_def cpp_case_def writeFileSync_def Let_def phase_defs
          compile_await_def exec_await_def compile_passed_def
          split: option.splits exec_reply.splits)
  qed
qed

lemma clock_started: "clock (started w) = clock w"
  by (simp add: started_def)

lemma executeCode_run_threw:
  assumes "source_file e code language w = Some src"
    and "write_throws e (started w) src = None"
    and "compile_passed e code language w"
    and "run_command e code language w = Some rcmd"
    and "exec_reply e rcmd MAX_EXECUTION_TIME (compiled e code language w) = SpawnThrows msg"
  shows "executeCode e code language w =
     (failure msg, cleanupFiles e (artifact_set e code language w) (after_run e code language w))"
proof -
  have "artifact_set e code language w \<noteq> []"
    using assms(1) by (simp add: artifact_set_def)
  then show ?thesis
    using prepare_proceeds [OF assms(1-4)] assms(4,5)
    by (simp add: executeCode_def Let_def started_def [symmetric] exec_await_def catch_block_def
        failure_def after_run_def)
qed

lemma executeCode_run_done:
  assumes "source_file e code language w = Some src"
    and "write_throws e (started w) src = None"
    and "compile_passed e code language w"
    and "run_command e code language w = Some rcmd"
    and "exec_reply e rcmd MAX_EXECUTION_TIME (compiled e code language w) = Callback out"
  shows "executeCode e code language w =
     (run_result (hr_millis (clock (compiled e code language w) + p_nanos out - clock w)) out,
      cleanupFiles e (artifact_set e code language w) (after_run e code language w))"
  using prepare_proceeds [OF assms(1-4)] assms(4,5)
  by (simp add: executeCode_def Let_def started_def [symmetric] exec_await_def after_run_def clock_started)

lemma supported_source_file:
  assumes "language \<in> {''javascript'', ''python'', ''java'', ''cpp''}"
    and "source_file e code language w = None"
  shows "language = ''java'' \<and> class_name_match code = None"
  using assms by (auto simp: source_file_def Let_def split: if_splits)

lemma run_command_defined:
  assumes "source_file e code language w = Some src"
  shows "\<exists>rcmd. run_command e code language w = Some rcmd"
  using assms by (auto simp: source_file_def run_command_def compiled_file_def Let_def split: if_splits)

lemma trace_started: "trace (started w) = trace w"
  by (simp add: started_def)


lemma written_ok:
  assumes "source_file e code language w = Some src" and "write_throws e (started w) src = None"
  shows "trace (written e code language w) = trace w @ [WriteFile src code]"
    and "files (written e code language w) = (files w)(src \<mapsto> code)"
    and "clock (written e code language w) = clock w + write_nanos e (started w) src"
  using assms by (simp_all add: written_def writeFileSync_def Let_def started_def)

lemma written_threw:
  assumes "source_file e code language w = Some src" and "write_throws e (started w) src = Some msg"
  shows "trace (written e code language w) = trace w"
    and "files (written e code language w) = files w"
  using assms by (simp_all add: written_def writeFileSync_def Let_def started_def)

lemma compiled_none:
  assumes "compile_command e code language w = None"
  shows "compiled e code language w = written e code language w"
  using assms by (simp add: compiled_def)

lemma compiled_threw:
  assumes "compile_command e code language w = Some ccmd"
    and "exec_reply e ccmd MAX_EXECUTION_TIME (written e code language w) = SpawnThrows msg"
  shows "trace (compiled e code language w) = trace (written e code language w) @ [Exec ccmd]"
    and "files (compiled e code language w) = files (written e code language w)"
  using assms by (simp_all add: compiled_def exec_await_def Let_def)

lemma compiled_done:
  assumes "compile_command e code language w = Some ccmd"
    and "exec_reply e ccmd MAX_EXECUTION_TIME (written e code language w) = Callback out"
  shows "trace (compiled e code language w) = trace (written e code language w) @ [Exec ccmd]"
    and "files (compiled e code language w) = p_files out"
    and "clock (compiled e code language w) = clock (written e code language w) + p_nanos out"
  using assms by (simp_all add: compiled_def exec_await_def Let_def)

lemma after_run_trace:
  assumes "run_command e code language w = Some rcmd"
  shows "trace (after_run e code language w) = trace (compiled e code language w) @ [Exec rcmd]"
  using assms by (simp add: after_run_def exec_await_def Let_def split: exec_reply.splits)

lemma compiled_trace:
  "trace (compiled e code language w) =
     trace (written e code language w)
       @ (case compile_command e code language w of None \<Rightarrow> [] | Some ccmd \<Rightarrow> [Exec ccmd])"
  by (simp add: compiled_def exec_await_def Let_def split: option.splits exec_reply.splits)

lemma executeCode_cases [consumes 1, case_names
    no_class write_threw compile_threw compile_failed run_threw run_done]:
  assumes "language \<in> {''javascript'', ''python'', ''java'', ''cpp''}"
  obtains
    "language = ''java''" and "class_name_match code = None"
  | src msg where "source_file e code language w = Some src"
      and "write_throws e (started w) src = Some msg"
  | src ccmd msg where "source_file e code language w = Some src"
      and "write_throws e (started w) src = None"
      and "compile_command e code language w = Some ccmd"
      and "exec_reply e ccmd MAX_EXECUTION_TIME (written e code language w) = SpawnThrows msg"
  | src ccmd out err where "source_file e code language w = Some src"
      and "write_throws e (started w) src = None"
      and "compile_command e code language w = Some ccmd"
      and "exec_reply e ccmd MAX_EXECUTION_TIME (written e code language w) = Callback out"
      and "p_error out = Some err"
  | src rcmd msg where "source_file e code language w = Some src"
      and "write_throws e (started w) src = None"
      and "compile_passed e code language w"
      and "run_command e code language w = Some rcmd"
      and "exec_reply e rcmd MAX_EXECUTION_TIME (compiled e code language w) = SpawnThrows msg"
  | src rcmd out where "source_file e code language w = Some src"
      and "write_throws e (started w) src = None"
      and "compile_passed e code language w"
      and "run_command e code language w = Some rcmd"
      and "exec_reply e rcmd MAX_EXECUTION_TIME (compiled e code language w) = Callback out"
proof (cases "source_file e code language w")
  case None
  have "language = ''java''" and "class_name_match code = None"
    using supported_source_file [OF assms None] by simp_all
  then show thesis by (rule that(1))
next
  case (Some src)
  note src = this
  obtain rcmd where rcmd: "run_command e code language w = Some rcmd"
    using run_command_defined [OF src] by (elim exE)
  show thesis
  proof (cases "write_throws e (started w) src")
    case (Some msg)
    show thesis by (rule that(2) [OF src Some])
  next
    case None
    note wr = this
    show thesis
    proof (cases "compile_passed e code language w")
      case True
      show thesis
      proof (cases "exec_reply e rcmd MAX_EXECUTION_TIME (compiled e code language w)")
        case (SpawnThrows msg)
        show thesis by (rule that(5) [OF src wr True rcmd SpawnThrows])
      next
        case (Callback out)
        show thesis by (rule that(6) [OF src wr True rcmd Callback])
      qed
    next
      case False
      then obtain ccmd where ccmd: "compile_command e code language w = Some ccmd"
        by (auto simp: compile_passed_def split: option.splits)
      show thesis
      proof (cases "exec_reply e ccmd MAX_EXECUTION_TIME (written e code language w)")
        case (SpawnThrows msg)
        show thesis by (rule that(3) [OF src wr ccmd SpawnThrows])
      next
        case (Callback out)
        with False ccmd obtain err where err: "p_error out = Some err"
          by (auto simp: compile_passed_def)
        show thesis by (rule that(4) [OF src wr ccmd Callback err])
      qed
    qed
  qed
qed

lemma cons_neq_suffix: "length (a :: 'a list) > 0 \<Longrightarrow> a @ b \<noteq> b"
  by auto

lemma commands_differ:
  assumes "compile_command e code language w = Some ccmd"
    and "run_command e code language w = Some rcmd"
  shows "ccmd \<noteq> rcmd"
proof (cases "language = ''java''")
  case True
  with assms show ?thesis
    by (auto simp: compile_command_def run_command_def split: option.splits)
next
  case False
  with assms obtain src where "ccmd = (''g++ '' @ src @ '' -o '') @ rcmd"
    by (auto simp: compile_command_def run_command_def compiled_file_def
        split: option.splits if_splits)
  then show ?thesis
    using cons_neq_suffix [of "''g++ '' @ src @ '' -o ''" rcmd] by simp
qed

lemma events_no_class:
  assumes "class_name_match code = None"
  shows "events_of e code ''java'' w = []"
  by (simp add: events_of_def executeCode_no_class [OF assms] trace_started)

lemma events_write_threw:
  assumes "source_file e code language w = Some src"
    and "write_throws e (started w) src = Some msg"
  shows "events_of e code language w = []"
  by (simp add: events_of_def executeCode_write_threw [OF assms] written_threw [OF assms])

lemma events_compile_threw:
  assumes "source_file e code language w = Some src"
    and "write_throws e (started w) src = None"
    and "compile_command e code language w = Some ccmd"
    and "exec_reply e ccmd MAX_EXECUTION_TIME (written e code language w) = SpawnThrows msg"
  shows "events_of e code language w = [WriteFile src code, Exec ccmd]"
  by (simp add: events_of_def executeCode_compile_threw [OF assms]
      compiled_threw [OF assms(3,4)] written_ok [OF assms(1,2)])

lemma events_compile_failed:
  assumes "source_file e code language w = Some src"
    and "write_throws e (started w) src = None"
    and "compile_command e code language w = Some ccmd"
    and "exec_reply e ccmd MAX_EXECUTION_TIME (written e code language w) = Callback out"
    and "p_error out = Some err"
  shows "events_of e code language w =
     [WriteFile src code, Exec ccmd] @ cleanup_events e [src] (p_files out)"
  by (simp add: events_of_def executeCode_compile_failed [OF assms] trace_cleanupFiles
      compiled_done [OF assms(3,4)] written_ok [OF assms(1,2)])

lemma events_run:
  assumes "source_file e code language w = Some src"
    and "write_throws e (started w) src = None"
    and "compile_passed e code language w"
    and "run_command e code language w = Some rcmd"
  shows "events_of e code language w =
     WriteFile src code
       # (case compile_command e code language w of None \<Rightarrow> [] | Some ccmd \<Rightarrow> [Exec ccmd])
       @ Exec rcmd # cleanup_events e (artifact_set e code language w) (files (after_run e code language w))"
proof (cases "exec_reply e rcmd MAX_EXECUTION_TIME (compiled e code language w)")
  case (SpawnThrows msg)
  show ?thesis
    by (simp add: events_of_def executeCode_run_threw [OF assms SpawnThrows] trace_cleanupFiles
        after_run_trace [OF assms(4)] compiled_trace written_ok [OF assms(1,2)])
next
  case (Callback out)
  show ?thesis
    by (simp add: events_of_def executeCode_run_done [OF assms Callback] trace_cleanupFiles
        after_run_trace [OF assms(4)] compiled_trace written_ok [OF assms(1,2)])
qed

lemma run_attempted_deletes_all:
  assumes "language \<in> {''javascript'', ''python'', ''java'', ''cpp''}"
    and "run_command e code language w = Some rcmd"
    and "Exec rcmd \<in> set (events_of e code language w)"
    and "p \<in> set (artifact_set e code language w)"
  shows "Unlink p \<in> set (events_of e code language w)"
  using assms(1)
proof (cases rule: executeCode_cases [where e = e and code = code and w = w])
  case no_class
  with assms(3) show ?thesis by (simp add: events_no_class)
next
  case (write_threw src msg)
  with assms(3) show ?thesis by (simp add: events_write_threw)
next
  case (compile_threw src ccmd msg)
  with assms(3) commands_differ [OF compile_threw(3) assms(2)] show ?thesis
    by (simp add: events_compile_threw)
next
  case (compile_failed src ccmd out err)
  with assms(3) commands_differ [OF compile_failed(3) assms(2)] show ?thesis
    by (simp add: events_compile_failed split: if_splits)
next
  case (run_threw src rcmd' msg)
  with assms(4) show ?thesis
    by (simp add: events_run Unlink_cleanup_events)
next
  case (run_done src rcmd' out)
  with assms(4) show ?thesis
    by (simp add: events_run Unlink_cleanup_events)
qed

lemma attempted_deletion_removes:
  assumes "language \<in> {''javascript'', ''python'', ''java'', ''cpp''}"
    and "Unlink p \<in> set (events_of e code language w)"
    and "\<not> unlink_throws e p"
  shows "files (snd (executeCode e code language w)) p = None"
  using assms(1)
proof (cases rule: executeCode_cases [where e = e and code = code and w = w])
  case no_class
  with assms(2) show ?thesis by (simp add: events_no_class)
next
  case (write_threw src msg)
  with assms(2) show ?thesis by (simp add: events_write_threw)
next
  case (compile_threw src ccmd msg)
  with assms(2) show ?thesis by (simp add: events_compile_threw)
next
  case (compile_failed src ccmd out err)
  with assms(2,3) show ?thesis
    by (simp add: events_compile_failed executeCode_compile_failed files_cleanupFiles
        split: if_splits)
next
  case (run_threw src rcmd msg)
  with assms(2,3) show ?thesis
    by (simp add: events_run executeCode_run_threw files_cleanupFiles Unlink_cleanup_events
        split: option.splits)
next
  case (run_done src rcmd out)
  with assms(2,3) show ?thesis
    by (simp add: events_run executeCode_run_done files_cleanupFiles Unlink_cleanup_events
        split: option.splits)
qed

lemma unlink_throws_irrelevant:
  "source_file (e\<lparr>unlink_throws := u\<rparr>) code language w = source_file e code language w"
  "compile_command (e\<lparr>unlink_throws := u\<rparr>) code language w = compile_command e code language w"
  "run_command (e\<lparr>unlink_throws := u\<rparr>) code language w = run_command e code language w"
  "written (e\<lparr>unlink_throws := u\<rparr>) code language w = written e code language w"
  "compiled (e\<lparr>unlink_throws := u\<rparr>) code language w = compiled e code language w"
  "compile_passed (e\<lparr>unlink_throws := u\<rparr>) code language w = compile_passed e code language w"
proof -
  show src: "source_file (e\<lparr>unlink_throws := u\<rparr>) code language w = source_file e code language w"
    by (simp add: source_file_def Let_def cong del: if_weak_cong)
  have bin: "compiled_file (e\<lparr>unlink_throws := u\<rparr>) code language w = compiled_file e code language w"
    by (simp add: compiled_file_def cong del: if_weak_cong)
  show cc: "compile_command (e\<lparr>unlink_throws := u\<rparr>) code language w = compile_command e code language w"
    by (simp add: compile_command_def src bin split: option.splits)
  show rc: "run_command (e\<lparr>unlink_throws := u\<rparr>) code language w = run_command e code language w"
    by (simp add: run_command_def src bin split: option.splits cong del: if_weak_cong)
  show wr: "written (e\<lparr>unlink_throws := u\<rparr>) code language w = written e code language w"
    by (simp add: written_def src writeFileSync_def split: option.splits)
  show co: "compiled (e\<lparr>unlink_throws := u\<rparr>) code language w = compiled e code language w"
    by (simp add: compiled_def cc wr exec_await_def split: option.splits)
  show "compile_passed (e\<lparr>unlink_throws := u\<rparr>) code language w = compile_passed e code language w"
    by (simp add: compile_passed_def cc wr split: option.splits)
qed

lemma deletion_failure_silent:
  assumes "language \<in> {''javascript'', ''python'', ''java'', ''cpp''}"
  shows "fst (executeCode (e\<lparr>unlink_throws := u\<rparr>) code language w)
       = fst (executeCode e code language w)"
  using assms
proof (cases rule: executeCode_cases [where e = e and code = code and w = w])
  case no_class
  then show ?thesis by (simp add: executeCode_no_class)
next
  case (write_threw src msg)
  then show ?thesis
    using executeCode_write_threw [of "e\<lparr>unlink_throws := u\<rparr>" code language w src msg]
    by (simp add: executeCode_write_threw unlink_throws_irrelevant)
next
  case (compile_threw src ccmd msg)
  then show ?thesis
    using executeCode_compile_threw [of "e\<lparr>unlink_throws := u\<rparr>" code language w src ccmd msg]
    by (simp add: executeCode_compile_threw unlink_throws_irrelevant)
next
  case (compile_failed src ccmd out err)
  then show ?thesis
    using executeCode_compile_failed
            [of "e\<lparr>unlink_throws := u\<rparr>" code language w src ccmd out err]
    by (simp add: executeCode_compile_failed unlink_throws_irrelevant)
next
  case (run_threw src rcmd msg)
  then show ?thesis
    using executeCode_run_threw [of "e\<lparr>unlink_throws := u\<rparr>" code language w src rcmd msg]
    by (simp add: executeCode_run_threw unlink_throws_irrelevant)
next
  case (run_done src rcmd out)
  then show ?thesis
    using executeCode_run_done [of "e\<lparr>unlink_throws := u\<rparr>" code language w src rcmd out]
    by (simp add: executeCode_run_done unlink_throws_irrelevant)
qed

subsection \<open>The outcome seen by the caller\<close>









subsection \<open>Cleanup\<close>

text \<open>
  C1, as the code has it. For every request with a supported language: once the run
  command has been started, a deletion is attempted on every file of the artifact set;
  after a compile command that called back with an error, a deletion is attempted on
  the source file; a file whose deletion was attempted and not refused by the system is
  not on disk when executeCode returns; and refusing deletions never changes the
  returned result, a failed deletion being logged only.
\<close>

theorem cleanup_attempted_quietly:
  assumes "language \<in> {''javascript'', ''python'', ''java'', ''cpp''}"
  shows "(\<forall>rcmd p. run_command e code language w = Some rcmd
            \<and> Exec rcmd \<in> set (events_of e code language w)
            \<and> p \<in> set (artifact_set e code language w)
          \<longrightarrow> Unlink p \<in> set (events_of e code language w))
       \<and> (\<forall>src ccmd out err. source_file e code language w = Some src
            \<and> write_throws e (started w) src = None
            \<and> compile_command e code language w = Some ccmd
            \<and> exec_reply e ccmd MAX_EXECUTION_TIME (written e code language w) = Callback out
            \<and> p_error out = Some err
          \<longrightarrow> Unlink src \<in> set (events_of e code language w))
       \<and> (\<forall>p. Unlink p \<in> set (events_of e code language w) \<and> \<not> unlink_throws e p
          \<longrightarrow> files (snd (executeCode e code language w)) p = None)
       \<and> (\<forall>u. fst (executeCode (e\<lparr>unlink_throws := u\<rparr>) code language w)
              = fst (executeCode e code language w))"
proof (intro conjI allI impI)
  fix rcmd p
  assume "run_command e code language w = Some rcmd
      \<and> Exec rcmd \<in> set (events_of e code language w)
      \<and> p \<in> set (artifact_set e code language w)"
  then show "Unlink p \<in> set (events_of e code language w)"
    using run_attempted_deletes_all [OF assms] by blast
next
  fix src ccmd out err
  assume a: "source_file e code language w = Some src
      \<and> write_throws e (started w) src = None
      \<and> compile_command e code language w = Some ccmd
      \<and> exec_reply e ccmd MAX_EXECUTION_TIME (written e code language w) = Callback out
      \<and> p_error out = Some err"
  then have "events_of e code language w =
      [WriteFile src code, Exec ccmd] @ cleanup_events e [src] (p_files out)"
    using events_compile_failed [of e code language w src ccmd out err] by blast
  then show "Unlink src \<in> set (events_of e code language w)"
    by (simp add: Unlink_cleanup_events del: cleanup_events.simps)
next
  fix p
  assume "Unlink p \<in> set (events_of e code language w) \<and> \<not> unlink_throws e p"
  then show "files (snd (executeCode e code language w)) p = None"
    using attempted_deletion_removes [OF assms] by blast
next
  fix u
  show "fst (executeCode (e\<lparr>unlink_throws := u\<rparr>) code language w)
      = fst (executeCode e code language w)"
    by (rule deletion_failure_silent [OF assms])
qed

theorem cleanup_attempted_quietly_witness:
  "Unlink ''/srv/code-executions/00112233445566778899aabbccddee00''
      \<in> set (events_of (sample_env False gxx_ok prints_42) ''int main() { }'' ''cpp'' world0)
   \<and> files (snd (executeCode (sample_env False gxx_ok prints_42) ''int main() { }'' ''cpp'' world0))
        ''/srv/code-executions/00112233445566778899aabbccddee00'' = None
   \<and> fst (executeCode ((sample_env False gxx_ok prints_42)\<lparr>unlink_throws := \<lambda>p. True\<rparr>)
            ''int main() { }'' ''cpp'' world0)
      = fst (executeCode (sample_env False gxx_ok prints_42) ''int main() { }'' ''cpp'' world0)"
proof -
  let ?e = "sample_env False gxx_ok prints_42"
  let ?bin = "''/srv/code-executions/00112233445566778899aabbccddee00''"
  have lang: "''cpp'' \<in> {''javascript'', ''python'', ''java'', ''cpp''}" by simp
  note inst = cleanup_attempted_quietly [OF lang, of ?e "''int main() { }''" world0]
  have rc: "run_command ?e ''int main() { }'' ''cpp'' world0 = Some ?bin"
    by (simp add: eval_defs)
  have ex: "Exec ?bin \<in> set (events_of ?e ''int main() { }'' ''cpp'' world0)"
    by (simp add: eval_defs)
  have ar: "?bin \<in> set (artifact_set ?e ''int main() { }'' ''cpp'' world0)"
    by (simp add: eval_defs)
  have nt: "\<not> unlink_throws ?e ?bin"
    by (simp add: sample_env_def)
  from inst rc ex ar have un: "Unlink ?bin \<in> set (events_of ?e ''int main() { }'' ''cpp'' world0)"
    by blast
  with inst nt have "files (snd (executeCode ?e ''int main() { }'' ''cpp'' world0)) ?bin = None"
    by blast
  with un inst show ?thesis by blast
qed

text \<open>
  C1 as stated fails: when the system refuses the deletion, the source file of a
  successful JavaScript run is still on disk after executeCode has returned.
\<close>

theorem refused_deletion_leaves_source:
  "''/srv/code-executions/00112233445566778899aabbccddee00.js''
      \<in> set (artifact_set (sample_env True gxx_ok prints_42) ''console.log(42)'' ''javascript'' world0)
   \<and> success (fst (executeCode (sample_env True gxx_ok prints_42) ''console.log(42)'' ''javascript'' world0))
   \<and> files (snd (executeCode (sample_env True gxx_ok prints_42) ''console.log(42)'' ''javascript'' world0))
        ''/srv/code-executions/00112233445566778899aabbccddee00.js'' = Some ''console.log(42)''"
  by (simp add: eval_defs)

subsection \<open>Compile failures\<close>

lemma compile_command_defined:
  "(\<exists>ccmd. compile_command e code language w = Some ccmd)
     \<longleftrightarrow> (language = ''cpp'' \<or> language = ''java'' \<and> class_name_match code \<noteq> None)"
  by (auto simp: compile_command_def source_file_def compiled_file_def Let_def
      split: option.splits if_splits)

text \<open>
  C5. For every java or cpp request (they are the ones with a compile command) whose
  source file was written and whose compile command calls back with an error, be it a
  non-zero exit or the kill by the deadline, executeCode returns the failure whose error
  is the captured standard error, or the message of the error object when standard error
  is empty, with executionTime zero. Its library calls are the write of the source, the
  compile command and the deletion of the source file, logged when it fails; the run
  command is never started.
\<close>

theorem compile_failure_reported:
  assumes "source_file e code language w = Some src"
    and "compile_command e code language w = Some ccmd"
    and "write_throws e (started w) src = None"
    and "exec_reply e ccmd MAX_EXECUTION_TIME (written e code language w) = Callback out"
    and "p_error out = Some err"
  shows "fst (executeCode e code language w) =
           \<lparr>success = False, output' = None,
            error = Some (if p_stderr out \<noteq> [] then p_stderr out else message err),
            executionTime = 0\<rparr>
         \<and> events_of e code language w =
             [WriteFile src code, Exec ccmd, Unlink src]
               @ (if p_files out src = None \<or> unlink_throws e src then [ConsoleError src] else [])
         \<and> (\<forall>rcmd. run_command e code language w = Some rcmd
               \<longrightarrow> Exec rcmd \<notin> set (events_of e code language w))"
proof -
  have ev: "events_of e code language w =
      [WriteFile src code, Exec ccmd, Unlink src]
        @ (if p_files out src = None \<or> unlink_throws e src then [ConsoleError src] else [])"
    by (simp add: events_compile_failed [OF assms(1,3,2,4,5)])
  have "Exec rcmd \<notin> set (events_of e code language w)"
    if "run_command e code language w = Some rcmd" for rcmd
    using commands_differ [OF assms(2) that] by (simp add: ev)
  then show ?thesis
    using ev
    by (simp add: executeCode_compile_failed [OF assms(1,3,2,4,5)] failure_def
        stderr_or_message_def)
qed

theorem compile_failure_reported_witness:
  "fst (executeCode (sample_env False gxx_syntax_error prints_42) ''int main() { '' ''cpp'' world0) =
     \<lparr>success = False, output' = None,
      error = Some ''prog.cpp:1:1: error: expected unqualified-id'', executionTime = 0\<rparr>
   \<and> events_of (sample_env False gxx_syntax_error prints_42) ''int main() { '' ''cpp'' world0 =
       [WriteFile ''/srv/code-executions/00112233445566778899aabbccddee00.cpp'' ''int main() { '',
        Exec ''g++ /srv/code-executions/00112233445566778899aabbccddee00.cpp -o /srv/code-executions/00112233445566778899aabbccddee00'',
        Unlink ''/srv/code-executions/00112233445566778899aabbccddee00.cpp'']
   \<and> Exec ''/srv/code-executions/00112233445566778899aabbccddee00''
       \<notin> set (events_of (sample_env False gxx_syntax_error prints_42) ''int main() { '' ''cpp'' world0)"
proof -
  let ?e = "sample_env False gxx_syntax_error prints_42"
  let ?src = "''/srv/code-executions/00112233445566778899aabbccddee00.cpp''"
  let ?bin = "''/srv/code-executions/00112233445566778899aabbccddee00''"
  let ?ccmd = "''g++ '' @ ?src @ '' -o '' @ ?bin"
  let ?out = "gxx_syntax_error (written ?e ''int main() { '' ''cpp'' world0)"
  have 1: "source_file ?e ''int main() { '' ''cpp'' world0 = Some ?src"
    by (simp add: eval_defs)
  have 2: "compile_command ?e ''int main() { '' ''cpp'' world0 = Some ?ccmd"
    by (simp add: eval_defs)
  have 3: "write_throws ?e (started world0) ?src = None"
    by (simp add: sample_env_def)
  have 4: "exec_reply ?e ?ccmd MAX_EXECUTION_TIME (written ?e ''int main() { '' ''cpp'' world0)
             = Callback ?out"
    by (simp add: sample_env_def is_compile_def)
  have 5: "p_error ?out = Some exit_code_1"
    by (simp add: gxx_syntax_error_def failed_exit_def)
  have 6: "run_command ?e ''int main() { '' ''cpp'' world0 = Some ?bin"
    by (simp add: eval_defs)
  have 7: "p_stderr ?out = ''prog.cpp:1:1: error: expected unqualified-id''"
    and 8: "p_files ?out ?src = Some ''int main() { ''"
    and 9: "\<not> unlink_throws ?e ?src"
    by (simp_all add: eval_defs)
  show ?thesis
    using compile_failure_reported [OF 1 2 3 4 5] 6 7 8 9 by simp
qed

subsection \<open>Failures of the run phase\<close>

text \<open>
  C3, as the code has it. Whenever the process of the run phase is killed by the
  deadline (the error object is flagged killed with signal SIGTERM), the returned error
  is the message "Execution timed out"; a run-phase process that ends with any other
  error yields the captured standard error, or the message of the error object when
  standard error is empty. A compile command that ends with an error, the kill by the
  deadline included, yields the captured standard error, or the message of the error
  object when standard error is empty.
\<close>

theorem run_failure_classified:
  "(\<forall>src rcmd out err.
      source_file e code language w = Some src
      \<and> write_throws e (started w) src = None
      \<and> compile_passed e code language w
      \<and> run_command e code language w = Some rcmd
      \<and> exec_reply e rcmd MAX_EXECUTION_TIME (compiled e code language w) = Callback out
      \<and> p_error out = Some err
    \<longrightarrow> \<not> success (fst (executeCode e code language w))
        \<and> error (fst (executeCode e code language w)) =
            Some (if timed_out err then ''Execution timed out''
                  else if p_stderr out \<noteq> [] then p_stderr out else message err))
   \<and> (\<forall>src ccmd out err.
      source_file e code language w = Some src
      \<and> write_throws e (started w) src = None
      \<and> compile_command e code language w = Some ccmd
      \<and> exec_reply e ccmd MAX_EXECUTION_TIME (written e code language w) = Callback out
      \<and> p_error out = Some err
    \<longrightarrow> \<not> success (fst (executeCode e code language w))
        \<and> error (fst (executeCode e code language w)) =
            Some (if p_stderr out \<noteq> [] then p_stderr out else message err))"
proof (intro conjI allI impI)
  fix src rcmd out err
  assume a: "source_file e code language w = Some src
      \<and> write_throws e (started w) src = None
      \<and> compile_passed e code language w
      \<and> run_command e code language w = Some rcmd
      \<and> exec_reply e rcmd MAX_EXECUTION_TIME (compiled e code language w) = Callback out
      \<and> p_error out = Some err"
  then have x: "executeCode e code language w =
      (run_result (hr_millis (clock (compiled e code language w) + p_nanos out - clock w)) out,
       cleanupFiles e (artifact_set e code language w) (after_run e code language w))"
    using executeCode_run_done [of e code language w src rcmd out] by blast
  from a show "\<not> success (fst (executeCode e code language w))"
    by (simp add: x run_result_def)
  from a show "error (fst (executeCode e code language w)) =
      Some (if timed_out err then ''Execution timed out''
            else if p_stderr out \<noteq> [] then p_stderr out else message err)"
    by (simp add: x run_result_def timed_out_def stderr_or_message_def)
next
  fix src ccmd out err
  assume a: "source_file e code language w = Some src
      \<and> write_throws e (started w) src = None
      \<and> compile_command e code language w = Some ccmd
      \<and> exec_reply e ccmd MAX_EXECUTION_TIME (written e code language w) = Callback out
      \<and> p_error out = Some err"
  then have x: "executeCode e code language w =
      (failure (stderr_or_message (p_stderr out) err),
       cleanupFiles e [src] (compiled e code language w))"
    using executeCode_compile_failed [of e code language w src ccmd out err] by blast
  show "\<not> success (fst (executeCode e code language w))"
    by (simp add: x failure_def)
  show "error (fst (executeCode e code language w)) =
      Some (if p_stderr out \<noteq> [] then p_stderr out else message err)"
    by (simp add: x failure_def stderr_or_message_def)
qed

theorem run_failure_classified_witness:
  "\<not> success (fst (executeCode (sample_env False gxx_ok run_killed) ''while (true) {}'' ''javascript'' world0))
   \<and> error (fst (executeCode (sample_env False gxx_ok run_killed) ''while (true) {}'' ''javascript'' world0))
       = Some ''Execution timed out''"
proof -
  let ?e = "sample_env False gxx_ok run_killed"
  let ?c = "''while (true) {}''"
  let ?src = "''/srv/code-executions/00112233445566778899aabbccddee00.js''"
  let ?out = "run_killed (compiled ?e ?c ''javascript'' world0)"
  have 1: "source_file ?e ?c ''javascript'' world0 = Some ?src"
    by (simp add: eval_defs)
  have 2: "write_throws ?e (started world0) ?src = None"
    by (simp add: sample_env_def)
  have 3: "compile_passed ?e ?c ''javascript'' world0"
    by (simp add: eval_defs)
  have 4: "run_command ?e ?c ''javascript'' world0 = Some (''node '' @ ?src)"
    by (simp add: eval_defs)
  have 5: "exec_reply ?e (''node '' @ ?src) MAX_EXECUTION_TIME (compiled ?e ?c ''javascript'' world0)
             = Callback ?out"
    by (simp add: sample_env_def is_compile_def)
  have 6: "p_error ?out = Some killed_by_deadline"
    by (simp add: run_killed_def failed_exit_def)
  have 7: "timed_out killed_by_deadline"
    by (simp add: timed_out_def killed_by_deadline_def)
  from run_failure_classified [of ?e ?c "''javascript''" world0] 1 2 3 4 5 6
  have "\<not> success (fst (executeCode ?e ?c ''javascript'' world0))
      \<and> error (fst (executeCode ?e ?c ''javascript'' world0)) =
          Some (if timed_out killed_by_deadline then ''Execution timed out''
                else if p_stderr ?out \<noteq> [] then p_stderr ?out else message killed_by_deadline)"
    by blast
  with 7 show ?thesis by simp
qed

text \<open>
  C3 as stated fails in the compile phase: a compile command killed by the deadline
  yields the message of the error object, not the timed-out message.
\<close>

theorem compile_timeout_not_distinct:
  "exec_reply (sample_env False gxx_killed prints_42)
      ''g++ /srv/code-executions/00112233445566778899aabbccddee00.cpp -o /srv/code-executions/00112233445566778899aabbccddee00''
      MAX_EXECUTION_TIME (written (sample_env False gxx_killed prints_42) ''int main() { }'' ''cpp'' world0)
     = Callback (gxx_killed (written (sample_env False gxx_killed prints_42) ''int main() { }'' ''cpp'' world0))
   \<and> p_error (gxx_killed (written (sample_env False gxx_killed prints_42) ''int main() { }'' ''cpp'' world0))
       = Some killed_by_deadline
   \<and> timed_out killed_by_deadline
   \<and> error (fst (executeCode (sample_env False gxx_killed prints_42) ''int main() { }'' ''cpp'' world0))
       = Some ''Command failed: (killed)''
   \<and> error (fst (executeCode (sample_env False gxx_killed prints_42) ''int main() { }'' ''cpp'' world0))
       \<noteq> Some ''Execution timed out''"
  by (simp add: eval_defs)

subsection \<open>The reported time\<close>

text \<open>
  C4, as the code has it. For every successful execution of a compiled language, the
  reported executionTime is the elapsed time from the start of the invocation to the
  callback of the run command, in rounded milliseconds: it is the time of writing the
  source plus the time of the compile command plus the time of the run command.
\<close>

theorem compiled_run_time_includes_compile:
  assumes "language \<in> {''java'', ''cpp''}"
    and "success (fst (executeCode e code language w))"
  shows "\<exists>src ccmd rcmd cout rout.
           source_file e code language w = Some src
         \<and> compile_command e code language w = Some ccmd
         \<and> exec_reply e ccmd MAX_EXECUTION_TIME (written e code language w) = Callback cout
         \<and> run_command e code language w = Some rcmd
         \<and> exec_reply e rcmd MAX_EXECUTION_TIME (compiled e code language w) = Callback rout
         \<and> executionTime (fst (executeCode e code language w)) =
             hr_millis (write_nanos e (started w) src + p_nanos cout + p_nanos rout)"
proof -
  have lang: "language \<in> {''javascript'', ''python'', ''java'', ''cpp''}"
    using assms(1) by auto
  from lang show ?thesis
  proof (cases rule: executeCode_cases [where e = e and code = code and w = w])
    case no_class
    with assms(2) show ?thesis by (simp add: executeCode_no_class failure_def)
  next
    case (write_threw src msg)
    with assms(2) show ?thesis by (simp add: executeCode_write_threw failure_def)
  next
    case (compile_threw src ccmd msg)
    with assms(2) show ?thesis by (simp add: executeCode_compile_threw failure_def)
  next
    case (compile_failed src ccmd out err)
    with assms(2) show ?thesis by (simp add: executeCode_compile_failed failure_def)
  next
    case (run_threw src rcmd msg)
    with assms(2) show ?thesis by (simp add: executeCode_run_threw failure_def)
  next
    case (run_done src rcmd rout)
    obtain ccmd where ccmd: "compile_command e code language w = Some ccmd"
      using assms(1) run_done(1) compile_command_defined [of e code language w]
      by (auto simp: source_file_def Let_def split: if_splits)
    with run_done(3) obtain cout
      where cout: "exec_reply e ccmd MAX_EXECUTION_TIME (written e code language w) = Callback cout"
      by (auto simp: compile_passed_def split: exec_reply.splits)
    have "clock (compiled e code language w) + p_nanos rout - clock w
        = write_nanos e (started w) src + p_nanos cout + p_nanos rout"
      by (simp add: compiled_done [OF ccmd cout] written_ok [OF run_done(1,2)])
    then have "executionTime (fst (executeCode e code language w)) =
        hr_millis (write_nanos e (started w) src + p_nanos cout + p_nanos rout)"
      by (simp add: executeCode_run_done [OF run_done] run_result_def split: option.splits)
    with run_done ccmd cout show ?thesis by blast
  qed
qed

theorem compiled_run_time_includes_compile_witness:
  "''cpp'' \<in> {''java'', ''cpp''}
   \<and> success (fst (executeCode (sample_env False gxx_ok prints_42) ''int main() { }'' ''cpp'' world0))
   \<and> executionTime (fst (executeCode (sample_env False gxx_ok prints_42) ''int main() { }'' ''cpp'' world0))
       = hr_millis (0 + 2000000000 + 10000000)"
proof -
  let ?e = "sample_env False gxx_ok prints_42"
  let ?c = "''int main() { }''"
  have 1: "''cpp'' \<in> {''java'', ''cpp''}" by simp
  have 2: "success (fst (executeCode ?e ?c ''cpp'' world0))"
    by (simp add: eval_defs)
  from compiled_run_time_includes_compile [OF 1 2]
  obtain src ccmd rcmd cout rout where
    a: "source_file ?e ?c ''cpp'' world0 = Some src"
    and b: "compile_command ?e ?c ''cpp'' world0 = Some ccmd"
    and c: "exec_reply ?e ccmd MAX_EXECUTION_TIME (written ?e ?c ''cpp'' world0) = Callback cout"
    and d: "run_command ?e ?c ''cpp'' world0 = Some rcmd"
    and f: "exec_reply ?e rcmd MAX_EXECUTION_TIME (compiled ?e ?c ''cpp'' world0) = Callback rout"
    and g: "executionTime (fst (executeCode ?e ?c ''cpp'' world0)) =
             hr_millis (write_nanos ?e (started world0) src + p_nanos cout + p_nanos rout)"
    by blast
  from b have "is_compile ccmd"
    by (auto simp: compile_command_def is_compile_def split: option.splits)
  with c have cout: "p_nanos cout = 2000000000"
    by (auto simp: sample_env_def gxx_ok_def clean_exit_def)
  from d have "\<not> is_compile rcmd"
    by (auto simp: run_command_def source_file_def compiled_file_def is_compile_def
        sample_env_def path_join_def)
  with f have rout: "p_nanos rout = 10000000"
    by (auto simp: sample_env_def prints_42_def clean_exit_def)
  have "write_nanos ?e (started world0) src = 0"
    by (simp add: sample_env_def)
  with g cout rout 1 2 show ?thesis by simp
qed

text \<open>
  C4 as stated fails: with a compile step of two seconds and a run of ten milliseconds
  the reported executionTime is 2010, not the 10 of the run phase.
\<close>

theorem compile_time_is_counted:
  "success (fst (executeCode (sample_env False gxx_ok prints_42) ''int main() { }'' ''cpp'' world0))
   \<and> executionTime (fst (executeCode (sample_env False gxx_ok prints_42) ''int main() { }'' ''cpp'' world0))
       = 2010
   \<and> exec_reply (sample_env False gxx_ok prints_42)
        ''/srv/code-executions/00112233445566778899aabbccddee00'' MAX_EXECUTION_TIME
        (compiled (sample_env False gxx_ok prints_42) ''int main() { }'' ''cpp'' world0)
       = Callback (prints_42 (compiled (sample_env False gxx_ok prints_42) ''int main() { }'' ''cpp'' world0))
   \<and> hr_millis (p_nanos (prints_42 (compiled (sample_env False gxx_ok prints_42) ''int main() { }'' ''cpp'' world0)))
       = 10"
  by (simp add: eval_defs)

subsection \<open>The patterns match what they describe\<close>

lemma strip_prefix_iff: "strip_prefix p s = Some r \<longleftrightarrow> s = p @ r"
proof (induction p arbitrary: s)
  case Nil
  show ?case by auto
next
  case (Cons c p)
  show ?case by (cases s) (auto simp: Cons.IH)
qed


lemma c_not_space: "\<not> is_space CHR ''c''"
  by (simp add: is_space_def)

lemma takeWhile_run:
  assumes "list_all P xs" and "ys = [] \<or> \<not> P (hd ys)"
  shows "takeWhile P (xs @ ys) = xs" and "dropWhile P (xs @ ys) = ys"
proof -
  have base: "takeWhile P ys = [] \<and> dropWhile P ys = ys"
    using assms(2) by (cases ys) auto
  show "takeWhile P (xs @ ys) = xs" and "dropWhile P (xs @ ys) = ys"
    using assms(1) base by (induction xs) auto
qed








lemma dropWhile_stop:
  assumes "dropWhile P xs = c # r"
  shows "\<not> P c" and "xs = takeWhile P xs @ c # r"
proof -
  show "\<not> P c"
    using hd_dropWhile [of P xs] assms by auto
  show "xs = takeWhile P xs @ c # r"
    using takeWhile_dropWhile_id [of P xs] assms by simp
qed

lemma brace_not_space: "\<not> is_space CHR ''{''"
  by (simp add: is_space_def)

lemma entry_match_here_iff:
  "entry_match_here head s = Some after \<longleftrightarrow>
     (\<exists>args ws body.
        s = head @ args @ '')'' @ ws @ ''{'' @ body @ ''}'' @ after
        \<and> CHR '')'' \<notin> set args \<and> list_all is_space ws \<and> CHR ''}'' \<notin> set body)"
  (is "?L \<longleftrightarrow> ?R")
proof
  assume m: ?L
  from m obtain r1 where r1: "s = head @ r1" and p1: "strip_prefix head s = Some r1"
    by (auto simp: entry_match_here_def strip_prefix_iff split: option.splits)
  from m obtain c2 r2 where d2: "dropWhile (\<lambda>c. c \<noteq> CHR '')'') r1 = c2 # r2"
    by (auto simp: entry_match_here_def p1 split: list.splits)
  from m obtain c3 r3 where d3: "dropWhile is_space r2 = c3 # r3"
    by (auto simp: entry_match_here_def p1 d2 split: list.splits)
  from m have c3: "c3 = CHR ''{''"
    by (auto simp: entry_match_here_def p1 d2 d3 split: if_splits)
  from m c3 obtain c4 where d4: "dropWhile (\<lambda>c. c \<noteq> CHR ''}'') r3 = c4 # after"
    by (auto simp: entry_match_here_def p1 d2 d3 split: list.splits)
  have c2: "c2 = CHR '')''" and c4: "c4 = CHR ''}''"
    using dropWhile_stop(1) [OF d2] dropWhile_stop(1) [OF d4] by simp_all
  let ?args = "takeWhile (\<lambda>c. c \<noteq> CHR '')'') r1"
  let ?ws = "takeWhile is_space r2"
  let ?body = "takeWhile (\<lambda>c. c \<noteq> CHR ''}'') r3"
  have "r1 = ?args @ CHR '')'' # r2" "r2 = ?ws @ CHR ''{'' # r3" "r3 = ?body @ CHR ''}'' # after"
    using dropWhile_stop(2) [OF d2] dropWhile_stop(2) [OF d3] dropWhile_stop(2) [OF d4] c2 c3 c4
    by simp_all
  then have "s = head @ ?args @ '')'' @ ?ws @ ''{'' @ ?body @ ''}'' @ after"
    using r1 by simp
  moreover have "CHR '')'' \<notin> set ?args" "list_all is_space ?ws" "CHR ''}'' \<notin> set ?body"
    by (auto simp: list_all_iff dest: set_takeWhileD)
  ultimately show ?R by blast
next
  assume ?R
  then obtain args ws body where
    s: "s = head @ args @ CHR '')'' # ws @ CHR ''{'' # body @ CHR ''}'' # after"
    and args: "CHR '')'' \<notin> set args" and ws: "list_all is_space ws"
    and body: "CHR ''}'' \<notin> set body"
    by auto
  have p1: "strip_prefix head s = Some (args @ CHR '')'' # ws @ CHR ''{'' # body @ CHR ''}'' # after)"
    by (simp add: strip_prefix_iff s)
  have "list_all (\<lambda>c. c \<noteq> CHR '')'') args" "list_all (\<lambda>c. c \<noteq> CHR ''}'') body"
    using args body by (auto simp: list_all_iff)
  then have d2: "dropWhile (\<lambda>c. c \<noteq> CHR '')'') (args @ CHR '')'' # ws @ CHR ''{'' # body @ CHR ''}'' # after)
      = CHR '')'' # ws @ CHR ''{'' # body @ CHR ''}'' # after"
    and d4: "dropWhile (\<lambda>c. c \<noteq> CHR ''}'') (body @ CHR ''}'' # after) = CHR ''}'' # after"
    using takeWhile_run(2) [of "\<lambda>c. c \<noteq> CHR '')''" args "CHR '')'' # ws @ CHR ''{'' # body @ CHR ''}'' # after"]
      takeWhile_run(2) [of "\<lambda>c. c \<noteq> CHR ''}''" body "CHR ''}'' # after"]
    by simp_all
  have d3: "dropWhile is_space (ws @ CHR ''{'' # body @ CHR ''}'' # after)
      = CHR ''{'' # body @ CHR ''}'' # after"
    using takeWhile_run(2) [OF ws, of "CHR ''{'' # body @ CHR ''}'' # after"] brace_not_space
    by simp
  show ?L
    by (simp add: entry_match_here_def p1 d2 d3 d4)
qed

lemma find_entry_iff:
  "(\<exists>m. find_entry head acc s = Some m) \<longleftrightarrow>
     (\<exists>before rest after. s = before @ rest \<and> entry_match_here head rest = Some after)"
proof (induction s arbitrary: acc)
  case Nil
  show ?case by (auto split: option.splits)
next
  case (Cons c cs)
  show ?case
  proof (cases "entry_match_here head (c # cs)")
    case (Some after)
    then have "c # cs = [] @ (c # cs) \<and> entry_match_here head (c # cs) = Some after" by simp
    then have "\<exists>before rest after. c # cs = before @ rest \<and> entry_match_here head rest = Some after"
      by blast
    with Some show ?thesis by simp
  next
    case None
    have "(\<exists>before rest after. c # cs = before @ rest \<and> entry_match_here head rest = Some after)
        \<longleftrightarrow> (\<exists>before rest after. cs = before @ rest \<and> entry_match_here head rest = Some after)"
      (is "?A \<longleftrightarrow> ?B")
    proof
      assume ?A
      then obtain before rest after where
        d: "c # cs = before @ rest" "entry_match_here head rest = Some after" by blast
      with None have "before \<noteq> []" by (cases before) auto
      with d(1) have "cs = tl before @ rest" by (cases before) auto
      with d(2) show ?B by blast
    next
      assume ?B
      then obtain before rest after where
        "cs = before @ rest" "entry_match_here head rest = Some after" by blast
      then have "c # cs = (c # before) @ rest \<and> entry_match_here head rest = Some after" by simp
      then show ?A by blast
    qed
    with None Cons.IH [of "acc @ [c]"] show ?thesis by simp
  qed
qed

lemma find_entry_None_iff:
  "find_entry head [] code = None \<longleftrightarrow> \<not> contains_entry_block head code"
proof -
  have "contains_entry_block head code \<longleftrightarrow>
      (\<exists>before rest after. code = before @ rest \<and> entry_match_here head rest = Some after)"
    (is "?A \<longleftrightarrow> ?B")
  proof
    assume ?A
    then obtain before args ws body after where
      c: "code = before @ head @ args @ '')'' @ ws @ ''{'' @ body @ ''}'' @ after"
      and r: "CHR '')'' \<notin> set args \<and> list_all is_space ws \<and> CHR ''}'' \<notin> set body"
      unfolding contains_entry_block_def by blast
    from r have "entry_match_here head (head @ args @ '')'' @ ws @ ''{'' @ body @ ''}'' @ after)
        = Some after"
      unfolding entry_match_here_iff by blast
    with c show ?B by blast
  next
    assume ?B
    then obtain before rest after where c: "code = before @ rest"
      and "entry_match_here head rest = Some after" by blast
    then obtain args ws body where
      "rest = head @ args @ '')'' @ ws @ ''{'' @ body @ ''}'' @ after"
      and r: "CHR '')'' \<notin> set args \<and> list_all is_space ws \<and> CHR ''}'' \<notin> set body"
      unfolding entry_match_here_iff by blast
    with c have "code = before @ head @ args @ '')'' @ ws @ ''{'' @ body @ ''}'' @ after" by simp
    with r show ?A unfolding contains_entry_block_def by blast
  qed
  also have "\<dots> \<longleftrightarrow> (\<exists>m. find_entry head [] code = Some m)"
    unfolding find_entry_iff by blast
  finally show ?thesis by auto
qed

lemma block_with_any_body_matches:
  assumes "CHR '')'' \<notin> set args" and "list_all is_space ws"
  shows "contains_entry_block head
           (before @ head @ args @ '')'' @ ws @ ''{'' @ body @ ''}'' @ after)"
proof -
  let ?x = "body @ ''}'' @ after"
  have "dropWhile (\<lambda>c. c \<noteq> CHR ''}'') ?x \<noteq> []"
    by (simp add: dropWhile_eq_Nil_conv)
  then obtain c r where d: "dropWhile (\<lambda>c. c \<noteq> CHR ''}'') ?x = c # r"
    by (cases "dropWhile (\<lambda>c. c \<noteq> CHR ''}'') ?x") auto
  have c: "c = CHR ''}''"
    using dropWhile_stop(1) [OF d] by simp
  let ?b = "takeWhile (\<lambda>c. c \<noteq> CHR ''}'') ?x"
  have x: "?x = ?b @ ''}'' @ r"
    using dropWhile_stop(2) [OF d] c by simp
  have "CHR ''}'' \<notin> set ?b"
    by (auto dest: set_takeWhileD)
  moreover have "before @ head @ args @ '')'' @ ws @ ''{'' @ body @ ''}'' @ after
      = before @ head @ args @ '')'' @ ws @ ''{'' @ ?b @ ''}'' @ r"
    using x by simp
  ultimately show ?thesis
    unfolding contains_entry_block_def using assms by blast
qed

lemma entry_match_here_Nil: "entry_match_here head [] = None"
  by (cases head) (simp_all add: entry_match_here_def)

lemma entry_block_at_iff:
  "entry_block_at head before matched after code \<longleftrightarrow>
     code = before @ matched @ after \<and> entry_match_here head (matched @ after) = Some after"
  (is "?A \<longleftrightarrow> ?B")
proof
  assume ?A
  then obtain args ws body where c: "code = before @ matched @ after"
    and m: "matched = head @ args @ '')'' @ ws @ ''{'' @ body @ ''}''"
    and r: "CHR '')'' \<notin> set args \<and> list_all is_space ws \<and> CHR ''}'' \<notin> set body"
    unfolding entry_block_at_def by blast
  from r have "entry_match_here head (head @ args @ '')'' @ ws @ ''{'' @ body @ ''}'' @ after)
      = Some after"
    unfolding entry_match_here_iff by blast
  with c m show ?B by simp
next
  assume b: ?B
  then obtain args ws body where
    e: "matched @ after = head @ args @ '')'' @ ws @ ''{'' @ body @ ''}'' @ after"
    and r: "CHR '')'' \<notin> set args \<and> list_all is_space ws \<and> CHR ''}'' \<notin> set body"
    unfolding entry_match_here_iff by blast
  from e have "matched @ after = (head @ args @ '')'' @ ws @ ''{'' @ body @ ''}'') @ after"
    by simp
  then have "matched = head @ args @ '')'' @ ws @ ''{'' @ body @ ''}''"
    by (simp only: append_same_eq)
  with b r show ?A unfolding entry_block_at_def by blast
qed

lemma entry_match_suffix:
  assumes "entry_match_here head s = Some a"
  shows "\<exists>m. s = m @ a"
proof -
  from assms obtain args ws body where
    "s = head @ args @ '')'' @ ws @ ''{'' @ body @ ''}'' @ a"
    unfolding entry_match_here_iff by blast
  then have "s = (head @ args @ '')'' @ ws @ ''{'' @ body @ ''}'') @ a" by simp
  then show ?thesis by blast
qed

lemma find_entry_leftmost:
  "find_entry head acc s = Some (b, m, a) \<longleftrightarrow>
     (\<exists>pre. b = acc @ pre \<and> s = pre @ m @ a \<and> entry_match_here head (m @ a) = Some a
        \<and> (\<forall>p r x. s = p @ r \<and> entry_match_here head r = Some x \<longrightarrow> length pre \<le> length p))"
proof (induction s arbitrary: acc)
  case Nil
  show ?case by (auto simp: entry_match_here_Nil)
next
  case (Cons c cs)
  show ?case
  proof (cases "entry_match_here head (c # cs)")
    case (Some rest)
    obtain m0 where m0: "c # cs = m0 @ rest"
      using entry_match_suffix [OF Some] by blast
    then have tk: "take (length (c # cs) - length rest) (c # cs) = m0"
      by simp
    have "(\<exists>pre. b = acc @ pre \<and> c # cs = pre @ m @ a \<and> entry_match_here head (m @ a) = Some a
        \<and> (\<forall>p r x. c # cs = p @ r \<and> entry_match_here head r = Some x \<longrightarrow> length pre \<le> length p))
      \<longleftrightarrow> b = acc \<and> m = m0 \<and> a = rest" (is "?R \<longleftrightarrow> _")
    proof
      assume ?R
      then obtain pre where d: "b = acc @ pre" "c # cs = pre @ m @ a"
        "entry_match_here head (m @ a) = Some a"
        and l: "\<forall>p r x. c # cs = p @ r \<and> entry_match_here head r = Some x \<longrightarrow> length pre \<le> length p"
        by blast
      from l Some have "length pre \<le> length ([] :: string)"
        by (metis append_Nil)
      then have pre: "pre = []" by simp
      with d Some have a: "a = rest" by simp
      with d(2) pre m0 have "m @ rest = m0 @ rest" by simp
      then have "m = m0" by (simp only: append_same_eq)
      with d(1) pre a show "b = acc \<and> m = m0 \<and> a = rest" by simp
    next
      assume "b = acc \<and> m = m0 \<and> a = rest"
      with Some m0 have "b = acc @ [] \<and> c # cs = [] @ m @ a
        \<and> entry_match_here head (m @ a) = Some a
        \<and> (\<forall>p r x. c # cs = p @ r \<and> entry_match_here head r = Some x
              \<longrightarrow> length ([] :: string) \<le> length p)"
        by simp
      then show ?R by blast
    qed
    with Some tk show ?thesis by auto
  next
    case None
    have "(\<exists>pre. b = acc @ pre \<and> c # cs = pre @ m @ a \<and> entry_match_here head (m @ a) = Some a
        \<and> (\<forall>p r x. c # cs = p @ r \<and> entry_match_here head r = Some x \<longrightarrow> length pre \<le> length p))
      \<longleftrightarrow> (\<exists>pre. b = (acc @ [c]) @ pre \<and> cs = pre @ m @ a
        \<and> entry_match_here head (m @ a) = Some a
        \<and> (\<forall>p r x. cs = p @ r \<and> entry_match_here head r = Some x \<longrightarrow> length pre \<le> length p))"
      (is "?A \<longleftrightarrow> ?B")
    proof
      assume ?A
      then obtain pre where d: "b = acc @ pre" "c # cs = pre @ m @ a"
        "entry_match_here head (m @ a) = Some a"
        and l: "\<forall>p r x. c # cs = p @ r \<and> entry_match_here head r = Some x \<longrightarrow> length pre \<le> length p"
        by blast
      from d None have ne: "pre \<noteq> []" by (cases pre) auto
      with d(2) have cs: "cs = tl pre @ m @ a" and pf: "pre = c # tl pre"
        by (cases pre; simp)+
      have "length (tl pre) \<le> length p" if "cs = p @ r" "entry_match_here head r = Some x" for p r x
      proof -
        from that have "c # cs = (c # p) @ r \<and> entry_match_here head r = Some x" by simp
        with l have "length pre \<le> length (c # p)" by blast
        with ne show ?thesis by (cases pre) auto
      qed
      moreover from d(1) pf have "b = (acc @ [c]) @ tl pre"
        by (metis append.assoc append_Cons append_Nil)
      ultimately show ?B using cs d(3) by blast
    next
      assume ?B
      then obtain pre where d: "b = (acc @ [c]) @ pre" "cs = pre @ m @ a"
        "entry_match_here head (m @ a) = Some a"
        and l: "\<forall>p r x. cs = p @ r \<and> entry_match_here head r = Some x \<longrightarrow> length pre \<le> length p"
        by blast
      have "length (c # pre) \<le> length p" if "c # cs = p @ r" "entry_match_here head r = Some x" for p r x
      proof (cases p)
        case Nil
        with that None show ?thesis by simp
      next
        case (Cons y p')
        with that have "cs = p' @ r" by simp
        with l that(2) have "length pre \<le> length p'" by blast
        with Cons show ?thesis by simp
      qed
      moreover from d have "b = acc @ (c # pre)" "c # cs = (c # pre) @ m @ a" by simp_all
      ultimately show ?A using d(3) by blast
    qed
    with None Cons.IH [of "acc @ [c]"] show ?thesis by simp
  qed
qed

lemma find_entry_first:
  "find_entry head [] code = Some (before, matched, after)
     \<longleftrightarrow> first_entry_block head before matched after code"
proof -
  have "first_entry_block head before matched after code \<longleftrightarrow>
      code = before @ matched @ after \<and> entry_match_here head (matched @ after) = Some after
      \<and> (\<forall>p r x. code = p @ r \<and> entry_match_here head r = Some x \<longrightarrow> length before \<le> length p)"
    (is "_ \<longleftrightarrow> ?R")
  proof
    assume f: "first_entry_block head before matched after code"
    then have e: "code = before @ matched @ after"
      "entry_match_here head (matched @ after) = Some after"
      by (simp_all add: first_entry_block_def entry_block_at_iff)
    have "length before \<le> length p"
      if h1: "code = p @ r" and h2: "entry_match_here head r = Some x" for p r x
    proof -
      obtain m where "r = m @ x" using entry_match_suffix [OF h2] by blast
      with h1 h2 have "entry_block_at head p m x code"
        by (simp add: entry_block_at_iff)
      with f show ?thesis unfolding first_entry_block_def by blast
    qed
    with e show ?R by blast
  next
    assume r: ?R
    then have "entry_block_at head before matched after code"
      by (simp add: entry_block_at_iff)
    moreover have "length before \<le> length b" if "entry_block_at head b m a code" for b m a
    proof -
      from that have "code = b @ (m @ a) \<and> entry_match_here head (m @ a) = Some a"
        by (simp add: entry_block_at_iff)
      with r show ?thesis by blast
    qed
    ultimately show "first_entry_block head before matched after code"
      unfolding first_entry_block_def by blast
  qed
  then show ?thesis
    using find_entry_leftmost [of head "[]" code before matched after] by simp
qed

lemma get_substitution_plain:
  "CHR ''$'' \<notin> set r \<Longrightarrow> get_substitution matched before after r = r"
  by (induction matched before after r rule: get_substitution.induct) auto

lemma modifiedCode_entry:
  assumes "language \<in> {''java'', ''cpp''}"
  shows "modifiedCode code language t =
           Some (replace_entry (entry_head language) (entry_replacement language t) code)"
  using assms by (auto simp: modifiedCode_def entry_head_def entry_replacement_def)

lemma entry_replacement_plain:
  assumes "CHR ''$'' \<notin> set (stringify_text (test_input t))"
  shows "CHR ''$'' \<notin> set (entry_replacement language t)"
  using assms by (simp add: entry_replacement_def)

subsection \<open>Java sources and their public class\<close>









subsection \<open>The test harness\<close>

lemmas harness_defs = test_body_def modifiedCode_def compare_output_def spread_result_def
  case_caught_def stringify_text_def number_to_string_def trim_def is_space_def
  case_42_def case_toString_def solution_js_def solution_cpp_def nested_main_java_def





text \<open>
  C9, as the code has it. For every test case whose execution succeeds and whose
  expected output has a string form (String does not throw on it), testPassed is set to
  the equality of the trimmed actual output and the trimmed string form of the expected
  output; when String throws on the expected output, the case is recorded as a failure
  with the message of the exception and testPassed is left unset; for a case whose
  execution fails, testPassed is left unset.
\<close>

theorem test_verdict:
  assumes "modifiedCode code language t = Some modified"
  shows "(success (fst (executeCode e modified language w))
            \<and> js_String (test_output t) = Inr str \<longrightarrow>
            (\<exists>out. output' (fst (executeCode e modified language w)) = Some out
               \<and> testPassed (fst (test_body e code language t w)) = Some (trim out = trim str)))
       \<and> (success (fst (executeCode e modified language w))
            \<and> js_String (test_output t) = Inl msg \<longrightarrow>
            testPassed (fst (test_body e code language t w)) = None
            \<and> \<not> tr_success (fst (test_body e code language t w))
            \<and> tr_error (fst (test_body e code language t w)) = Some msg)
       \<and> (\<not> success (fst (executeCode e modified language w)) \<longrightarrow>
            testPassed (fst (test_body e code language t w)) = None)"
proof -
  obtain r w1 where x: "executeCode e modified language w = (r, w1)"
    by (cases "executeCode e modified language w")
  have wf: "well_formed r"
    using well_formed_executeCode [of e modified language w] x by simp
  show ?thesis
  proof (cases "success r")
    case True
    with wf obtain out where "output' r = Some out"
      by (auto simp: well_formed_def)
    with True show ?thesis
      by (auto simp: test_body_def assms x compare_output_def spread_result_def case_caught_def
          Let_def)
  next
    case False
    then show ?thesis
      by (simp add: test_body_def assms x compare_output_def spread_result_def)
  qed
qed

theorem test_verdict_witness:
  "js_String (test_output case_42) = Inr ''42''
   \<and> output' (fst (executeCode (sample_env False gxx_ok prints_42)
         (solution_js @ [CHR 0x0A, CHR 0x0A] @ ''console.log(solution(5));'') ''javascript'' world0))
       = Some (''42'' @ [CHR 0x0A])
   \<and> testPassed (fst (test_body (sample_env False gxx_ok prints_42) solution_js ''javascript''
         case_42 world0)) = Some True"
proof -
  let ?e = "sample_env False gxx_ok prints_42"
  let ?m = "solution_js @ [CHR 0x0A, CHR 0x0A] @ ''console.log(solution(5));''"
  have 1: "modifiedCode solution_js ''javascript'' case_42 = Some ?m"
    by (simp add: modifiedCode_def stringify_text_def number_to_string_def case_42_def)
  have 2: "js_String (test_output case_42) = Inr ''42''"
    by (simp add: case_42_def number_to_string_def)
  have 3: "fst (executeCode ?e ?m ''javascript'' world0) =
      \<lparr>success = True, output' = Some (''42'' @ [CHR 0x0A]), error = None, executionTime = 10\<rparr>"
    by (simp add: eval_defs solution_js_def)
  have 4: "trim (''42'' @ [CHR 0x0A]) = trim ''42''"
    by (simp add: trim_def is_space_def)
  from test_verdict [OF 1, of ?e world0 "''42''"] 2 3 4 show ?thesis
    by simp
qed

text \<open>
  C9 as stated fails: when the expected output is an object with an own property
  toString, String throws after a successful execution, the catch block of the case
  pushes a failure, and testPassed is not set.
\<close>

theorem unconvertible_expected_output:
  "success (fst (executeCode (sample_env False gxx_ok prints_42)
         (solution_js @ [CHR 0x0A, CHR 0x0A] @ ''console.log(solution(5));'') ''javascript'' world0))
   \<and> modifiedCode solution_js ''javascript'' case_toString
       = Some (solution_js @ [CHR 0x0A, CHR 0x0A] @ ''console.log(solution(5));'')
   \<and> testPassed (fst (test_body (sample_env False gxx_ok prints_42) solution_js ''javascript''
         case_toString world0)) = None
   \<and> tr_error (fst (test_body (sample_env False gxx_ok prints_42) solution_js ''javascript''
         case_toString world0)) = Some ''Cannot convert object to primitive value''"
  by (simp add: eval_defs harness_defs)

text \<open>
  C10, as the code has it. For every java or cpp test case whose source contains no
  text of the shape of the entry pattern (a missing main, for one), the rewrite leaves
  the source unchanged and the harness executes the unmodified program, handling its
  result like any other; no rewrite error exists. A main block with nested braces is
  not such a case: whatever stands between its braces, a text with the header, a
  parameter list, white space and a block has the shape of the pattern, which then
  ends at the first closing brace. A source with that shape has a first entry block,
  and the rewrite returns the source with that block replaced by the replacement text,
  in which the dollar patterns of the serialised input are expanded; without a dollar
  sign in the input the replacement text stands as it is.
\<close>

theorem unmatched_entry_runs_unmodified:
  assumes "language \<in> {''java'', ''cpp''}"
  shows "(\<not> contains_entry_block (entry_head language) code \<longrightarrow>
            modifiedCode code language t = Some code
            \<and> test_body e code language t w =
                (compare_output (fst (executeCode e code language w)) t,
                 snd (executeCode e code language w)))
       \<and> (\<forall>before args ws body after.
            code = before @ entry_head language @ args @ '')'' @ ws @ ''{'' @ body @ ''}'' @ after
            \<and> CHR '')'' \<notin> set args \<and> list_all is_space ws
          \<longrightarrow> contains_entry_block (entry_head language) code)
       \<and> (contains_entry_block (entry_head language) code \<longrightarrow>
            (\<exists>before matched after.
               first_entry_block (entry_head language) before matched after code))
       \<and> (\<forall>before matched after.
            first_entry_block (entry_head language) before matched after code \<longrightarrow>
              modifiedCode code language t =
                Some (before
                      @ get_substitution matched before after (entry_replacement language t)
                      @ after)
              \<and> (CHR ''$'' \<notin> set (stringify_text (test_input t)) \<longrightarrow>
                   modifiedCode code language t =
                     Some (before @ entry_replacement language t @ after)))"
proof (intro conjI impI allI)
  assume "\<not> contains_entry_block (entry_head language) code"
  then have "find_entry (entry_head language) [] code = None"
    by (simp add: find_entry_None_iff)
  then have "replace_entry (entry_head language) r code = code" for r
    by (simp add: replace_entry_def)
  then show m: "modifiedCode code language t = Some code"
    using assms by (auto simp: modifiedCode_def entry_head_def)
  then show "test_body e code language t w =
      (compare_output (fst (executeCode e code language w)) t,
       snd (executeCode e code language w))"
    by (simp add: test_body_def split: prod.splits)
next
  fix before args ws body after
  assume "code = before @ entry_head language @ args @ '')'' @ ws @ ''{'' @ body @ ''}'' @ after
      \<and> CHR '')'' \<notin> set args \<and> list_all is_space ws"
  then show "contains_entry_block (entry_head language) code"
    using block_with_any_body_matches [of args ws "entry_head language" before body after]
    by simp
next
  assume "contains_entry_block (entry_head language) code"
  then have "find_entry (entry_head language) [] code \<noteq> None"
    by (simp add: find_entry_None_iff)
  then obtain before matched after where
    "find_entry (entry_head language) [] code = Some (before, matched, after)"
    by auto
  then have "first_entry_block (entry_head language) before matched after code"
    by (simp only: find_entry_first)
  then show "\<exists>before matched after.
      first_entry_block (entry_head language) before matched after code"
    by blast
next
  fix before matched after
  assume "first_entry_block (entry_head language) before matched after code"
  then have f: "find_entry (entry_head language) [] code = Some (before, matched, after)"
    by (simp only: find_entry_first)
  show g: "modifiedCode code language t =
      Some (before @ get_substitution matched before after (entry_replacement language t) @ after)"
    by (simp add: modifiedCode_entry [OF assms] replace_entry_def f)
  show "modifiedCode code language t = Some (before @ entry_replacement language t @ after)"
    if "CHR ''$'' \<notin> set (stringify_text (test_input t))"
    using g get_substitution_plain [OF entry_replacement_plain [OF that]] by simp
qed

theorem unmatched_entry_runs_unmodified_witness:
  "\<not> contains_entry_block (entry_head ''cpp'') solution_cpp
   \<and> modifiedCode solution_cpp ''cpp'' case_42 = Some solution_cpp
   \<and> test_body (sample_env False gxx_ok prints_42) solution_cpp ''cpp'' case_42 world0 =
       (compare_output (fst (executeCode (sample_env False gxx_ok prints_42) solution_cpp ''cpp'' world0))
          case_42,
        snd (executeCode (sample_env False gxx_ok prints_42) solution_cpp ''cpp'' world0))
   \<and> first_entry_block (entry_head ''cpp'') ''int solution(int x) { return x; } ''
        ''int main() { return 0; }'' [] plain_main_cpp
   \<and> modifiedCode plain_main_cpp ''cpp'' case_42 =
       Some ''int solution(int x) { return x; } int main() { cout << solution(5) << endl; return 0; }''"
proof -
  have "find_entry (entry_head ''cpp'') [] solution_cpp = None"
    by (simp add: entry_head_def solution_cpp_def entry_match_here_def)
  then have 1: "\<not> contains_entry_block (entry_head ''cpp'') solution_cpp"
    by (rule find_entry_None_iff [THEN iffD1])
  have 2: "''cpp'' \<in> {''java'', ''cpp''}" by simp
  have "find_entry (entry_head ''cpp'') [] plain_main_cpp =
      Some (''int solution(int x) { return x; } '', ''int main() { return 0; }'', [])"
    by (simp add: entry_head_def plain_main_cpp_def entry_match_here_def is_space_def)
  then have 3: "first_entry_block (entry_head ''cpp'') ''int solution(int x) { return x; } ''
      ''int main() { return 0; }'' [] plain_main_cpp"
    by (simp only: find_entry_first)
  have 4: "CHR ''$'' \<notin> set (stringify_text (test_input case_42))"
    by (simp add: case_42_def stringify_text_def number_to_string_def)
  have 5: "entry_replacement ''cpp'' case_42 = ''int main() { cout << solution(5) << endl; return 0; }''"
    by (simp add: entry_replacement_def case_42_def stringify_text_def number_to_string_def)
  from unmatched_entry_runs_unmodified [OF 2, of solution_cpp case_42] 1
  have a: "modifiedCode solution_cpp ''cpp'' case_42 = Some solution_cpp
      \<and> test_body (sample_env False gxx_ok prints_42) solution_cpp ''cpp'' case_42 world0 =
       (compare_output (fst (executeCode (sample_env False gxx_ok prints_42) solution_cpp ''cpp'' world0))
          case_42,
        snd (executeCode (sample_env False gxx_ok prints_42) solution_cpp ''cpp'' world0))"
    by blast
  from unmatched_entry_runs_unmodified [OF 2, of plain_main_cpp case_42] 3 4
  have "modifiedCode plain_main_cpp ''cpp'' case_42 =
      Some (''int solution(int x) { return x; } '' @ entry_replacement ''cpp'' case_42 @ [])"
    by blast
  then have b: "modifiedCode plain_main_cpp ''cpp'' case_42 =
      Some ''int solution(int x) { return x; } int main() { cout << solution(5) << endl; return 0; }''"
    by (simp add: 5)
  from 1 a 3 b show ?thesis by blast
qed

text \<open>
  C10 as stated fails for a main body with nested braces: the pattern matches up to the
  first closing brace, and the source is changed.
\<close>

theorem nested_braces_are_rewritten:
  "modifiedCode nested_main_java ''java'' case_42 =
     Some ''public class Main { public static void main(String[] args) { System.out.println(solution(5)); } } }''
   \<and> modifiedCode nested_main_java ''java'' case_42 \<noteq> Some nested_main_java"
  by (simp add: harness_defs replace_entry_def entry_match_here_def)

end
